theory Spec2Isabelle
  imports Main "HOL-Library.AList"
begin

section \<open>Data shared by the client and its collaborators\<close>

text \<open>
  The peer descriptor (\<^verbatim>\<open>P2PPairingRequest\<close>, \<^verbatim>\<open>P2PPairingResponse\<close>): the same fields
  under two type tags. A field that may be missing is an option: \<open>p2p_version\<close> is
  tested against \<^verbatim>\<open>undefined\<close> by \<^verbatim>\<open>sendPairingResponse\<close>, \<open>p2p_icon\<close> and
  \<open>p2p_appUrl\<close> are optional, and \<open>p2p_relayServer\<close> holds what \<^verbatim>\<open>getRelayServer\<close>
  returned.
\<close>

record Pairing =
  p2p_id :: string
  p2p_type :: string
  p2p_name :: string
  p2p_version :: "string option"
  p2p_publicKey :: string
  p2p_relayServer :: "string option"
  p2p_icon :: "string option"
  p2p_appUrl :: "string option"

text \<open>
  The functions and constants that the client imports from modules outside the source
  (\<^verbatim>\<open>utils/crypto\<close>, \<^verbatim>\<open>constants\<close>, the base class \<^verbatim>\<open>CommunicationClient\<close>, \<^verbatim>\<open>JSON\<close>)
  are parameters of the model, collected in one record. \<open>fromHex\<close> is
  \<^verbatim>\<open>Buffer.from(s, 'hex')\<close>; \<open>sharedRx\<close> and \<open>sharedTx\<close> are the keys that
  \<^verbatim>\<open>createCryptoBoxServer\<close> and \<^verbatim>\<open>createCryptoBoxClient\<close> derive for a peer's public key
  and the own private key; a decryption that throws is \<open>None\<close>.
\<close>

record Ext =
  getHexHash :: "string \<Rightarrow> string"
  toHex :: "string \<Rightarrow> string"
  fromHex :: "string \<Rightarrow> string"
  BEACON_VERSION :: string
  sharedRx :: "string \<Rightarrow> string"
  sharedTx :: "string \<Rightarrow> string"
  encryptCryptoboxPayload :: "string \<Rightarrow> string \<Rightarrow> string"
  decryptCryptoboxPayload :: "string \<Rightarrow> string \<Rightarrow> string option"
  encryptMessageAsymmetric :: "string \<Rightarrow> string \<Rightarrow> string"
  stringify :: "Pairing \<Rightarrow> string"

text \<open>The constructor's arguments that the modelled methods read. \<open>keyPair_publicKey\<close> is
  \<^verbatim>\<open>this.keyPair.publicKey\<close>, \<open>this_KNOWN_RELAY_SERVERS\<close> the field
  \<^verbatim>\<open>this.KNOWN_RELAY_SERVERS\<close>.\<close>

record Config =
  name :: string
  keyPair_publicKey :: string
  this_KNOWN_RELAY_SERVERS :: "string list"
  iconUrl :: "string option"
  appUrl :: "string option"
  isWallet :: bool

definition KNOWN_RELAY_SERVERS :: "string list" where
  "KNOWN_RELAY_SERVERS = [''matrix.papers.tech'']"

definition newConfig ::
  "string \<Rightarrow> string \<Rightarrow> string list \<Rightarrow> string option \<Rightarrow> string option \<Rightarrow> bool \<Rightarrow> Config" where
  "newConfig name' publicKey matrixNodes iconUrl' appUrl' isWallet' =
     \<lparr> name = name', keyPair_publicKey = publicKey,
       this_KNOWN_RELAY_SERVERS =
         (if length matrixNodes > 0 then matrixNodes else KNOWN_RELAY_SERVERS),
       iconUrl = iconUrl', appUrl = appUrl', isWallet = isWallet' \<rparr>"

text \<open>
  Modelled from the spec: \<^verbatim>\<open>getPublicKey\<close> and \<^verbatim>\<open>getPublicKeyHash\<close> of the base class
  \<^verbatim>\<open>CommunicationClient\<close>, which is not in the source: "\<open>publicKey\<close> (hex),
  \<open>publicKeyHash\<close> (32-byte generic hash of the public key, hex)".
\<close>

definition getPublicKey :: "Ext \<Rightarrow> Config \<Rightarrow> string" where
  "getPublicKey ext cfg = toHex ext (keyPair_publicKey cfg)"

definition getPublicKeyHash :: "Ext \<Rightarrow> Config \<Rightarrow> string" where
  "getPublicKeyHash ext cfg = getHexHash ext (keyPair_publicKey cfg)"

text \<open>Instances used in the concrete examples: a digest function given by a finite
  table (\<open>00\<close> elsewhere), every other function the identity or a tagging of its
  arguments.\<close>

definition tableHash :: "(string \<times> string) list \<Rightarrow> string \<Rightarrow> string" where
  "tableHash table s = (case map_of table s of None \<Rightarrow> ''00'' | Some h \<Rightarrow> h)"

definition tableExt :: "(string \<times> string) list \<Rightarrow> Ext" where
  "tableExt table =
     \<lparr> getHexHash = tableHash table,
       toHex = (\<lambda>b. b),
       fromHex = (\<lambda>s. s),
       BEACON_VERSION = ''2'',
       sharedRx = (\<lambda>pk. ''rx-'' @ pk),
       sharedTx = (\<lambda>pk. ''tx-'' @ pk),
       encryptCryptoboxPayload = (\<lambda>m k. ''box('' @ k @ '','' @ m @ '')''),
       decryptCryptoboxPayload = (\<lambda>p k. None),
       encryptMessageAsymmetric = (\<lambda>pk m. ''sealed('' @ pk @ '','' @ m @ '')''),
       stringify = (\<lambda>info. ''{id:'' @ p2p_id info @ '',type:'' @ p2p_type info @ ''}'') \<rparr>"

section \<open>Relay selection (P2PCommunicationClient.getRelayServer)\<close>

text \<open>
  \<^verbatim>\<open>new BigNumber(`0x${h}`)\<close>, as bignumber.js reads a string with the prefix \<open>0x\<close>: the
  rest is checked, character by character, against the alphabet \<open>0123456789abcdef\<close>. At the
  first character outside the alphabet, and once only, the string is replaced by its lower
  case when it equals its own upper case, or by its upper case when it equals its own lower
  case, and the check starts again; otherwise, or at a second failure, the result is
  \<^verbatim>\<open>NaN\<close>. So a hex string is read when its letters are all lower case or all upper
  case, and a string that mixes the two cases is \<^verbatim>\<open>NaN\<close>, as is the empty string.
  \<^verbatim>\<open>NaN\<close> is \<open>None\<close> here, and the number is an integer of unbounded size.

  Characters are bytes, and the case of the letters \<open>A\<close> to \<open>Z\<close> only is changed. A string
  with a fraction point or with white space at its end is read by bignumber.js as a number
  that this model does not represent (it gives \<open>None\<close>); no statement below is about such
  a string.
\<close>

definition hexDigit :: "char \<Rightarrow> nat option" where
  "hexDigit c =
     (let n = of_char c :: nat in
      if 48 \<le> n \<and> n \<le> 57 then Some (n - 48)
      else if 97 \<le> n \<and> n \<le> 102 then Some (n - 87)
      else None)"

definition toLowerChar :: "char \<Rightarrow> char" where
  "toLowerChar c =
     (case map_of (zip ''ABCDEFGHIJKLMNOPQRSTUVWXYZ'' ''abcdefghijklmnopqrstuvwxyz'') c of
        None \<Rightarrow> c
      | Some l \<Rightarrow> l)"

definition toUpperChar :: "char \<Rightarrow> char" where
  "toUpperChar c =
     (case map_of (zip ''abcdefghijklmnopqrstuvwxyz'' ''ABCDEFGHIJKLMNOPQRSTUVWXYZ'') c of
        None \<Rightarrow> c
      | Some u \<Rightarrow> u)"

definition toLowerCase :: "string \<Rightarrow> string" where
  "toLowerCase s = map toLowerChar s"

definition toUpperCase :: "string \<Rightarrow> string" where
  "toUpperCase s = map toUpperChar s"

fun hexDigits :: "nat \<Rightarrow> string \<Rightarrow> nat option" where
  "hexDigits acc [] = Some acc"
| "hexDigits acc (c # cs) =
     (case hexDigit c of None \<Rightarrow> None | Some d \<Rightarrow> hexDigits (16 * acc + d) cs)"

definition BigNumber :: "string \<Rightarrow> int option" where
  "BigNumber h =
     (if h = [] then None
      else case hexDigits 0 h of
        Some n \<Rightarrow> Some (int n)
      | None \<Rightarrow>
          if h = toUpperCase h then map_option int (hexDigits 0 (toLowerCase h))
          else if h = toLowerCase h then map_option int (hexDigits 0 (toUpperCase h))
          else None)"

text \<open>\<^verbatim>\<open>a.minus(b)\<close>, \<^verbatim>\<open>a.absoluteValue()\<close> and \<^verbatim>\<open>a.isLessThan(b)\<close>: a \<^verbatim>\<open>NaN\<close> operand
  gives \<^verbatim>\<open>NaN\<close>, and a comparison with \<^verbatim>\<open>NaN\<close> is false.\<close>

definition minus :: "int option \<Rightarrow> int option \<Rightarrow> int option" where
  "minus a b = (case (a, b) of (Some x, Some y) \<Rightarrow> Some (x - y) | _ \<Rightarrow> None)"

definition absoluteValue :: "int option \<Rightarrow> int option" where
  "absoluteValue a = map_option abs a"

definition isLessThan :: "int option \<Rightarrow> int option \<Rightarrow> bool" where
  "isLessThan a b = (case (a, b) of (Some x, Some y) \<Rightarrow> x < y | _ \<Rightarrow> False)"

definition getAbsoluteBigIntDifference :: "string \<Rightarrow> string \<Rightarrow> int option" where
  "getAbsoluteBigIntDifference firstHash secondHash =
     absoluteValue (minus (BigNumber firstHash) (BigNumber secondHash))"

text \<open>The callback of the \<^verbatim>\<open>reduce\<close>: it keeps \<open>prev\<close> only when \<open>prev\<close> is strictly
  closer than the current element \<open>cur\<close> (\<^verbatim>\<open>curr\<close> in the source).\<close>

definition relayStep :: "Ext \<Rightarrow> string \<Rightarrow> string \<Rightarrow> string \<Rightarrow> string \<Rightarrow> string" where
  "relayStep ext hash nonce prev cur =
     (let prevRelayServerHash = getHexHash ext (prev @ nonce);
          currRelayServerHash = getHexHash ext (cur @ nonce);
          prevBigInt = getAbsoluteBigIntDifference hash prevRelayServerHash;
          currBigInt = getAbsoluteBigIntDifference hash currRelayServerHash
      in if isLessThan prevBigInt currBigInt then prev else cur)"

text \<open>
  \<open>getRelayServer ext cfg publicKeyHash nonce\<close>: \<open>publicKeyHash\<close> is the optional
  argument (\<open>None\<close> is \<^verbatim>\<open>undefined\<close>; the empty string is falsy as well, and then the
  hash of the own public key is taken). The reduction starts from the first server and
  visits every server, the first one included; on an empty list it returns
  \<^verbatim>\<open>undefined\<close>, which is \<open>None\<close>.
\<close>

definition effectiveHash :: "Ext \<Rightarrow> Config \<Rightarrow> string option \<Rightarrow> string" where
  "effectiveHash ext cfg publicKeyHash =
     (case publicKeyHash of
        None \<Rightarrow> getHexHash ext (keyPair_publicKey cfg)
      | Some h \<Rightarrow> if h = [] then getHexHash ext (keyPair_publicKey cfg) else h)"

definition getRelayServer :: "Ext \<Rightarrow> Config \<Rightarrow> string option \<Rightarrow> string \<Rightarrow> string option" where
  "getRelayServer ext cfg publicKeyHash nonce =
     (let hash = effectiveHash ext cfg publicKeyHash in
      case this_KNOWN_RELAY_SERVERS cfg of
        [] \<Rightarrow> None
      | s0 # _ \<Rightarrow> Some (foldl (relayStep ext hash nonce) s0 (this_KNOWN_RELAY_SERVERS cfg)))"

text \<open>A hex string in one letter case: at least one character, and either digits and
  the letters \<open>a\<close> to \<open>f\<close> only, or digits and the letters \<open>A\<close> to \<open>F\<close> only.
  \<open>hexValue\<close> is the nonnegative integer that a hex string denotes, whatever the case of
  its letters, and \<open>distance\<close> the absolute difference of two such integers.\<close>

definition lowerHex :: "string \<Rightarrow> bool" where
  "lowerHex h = (\<forall>c \<in> set h. hexDigit c \<noteq> None)"

definition isHex :: "string \<Rightarrow> bool" where
  "isHex h = (h \<noteq> [] \<and> (lowerHex h \<or> (h = toUpperCase h \<and> lowerHex (toLowerCase h))))"

definition digitValue :: "char \<Rightarrow> nat" where
  "digitValue c = (case hexDigit (toLowerChar c) of None \<Rightarrow> 0 | Some d \<Rightarrow> d)"

definition hexValue :: "string \<Rightarrow> nat" where
  "hexValue h = foldl (\<lambda>acc c. 16 * acc + digitValue c) 0 h"

definition distance :: "string \<Rightarrow> string \<Rightarrow> int" where
  "distance a b = \<bar>int (hexValue a) - int (hexValue b)\<bar>"

text \<open>Digest tables for the concrete instances. In \<open>nearTable\<close> the three digests
  have distances 3, 1 and 2 to the hash \<open>0d\<close>; in \<open>tieTable\<close> the digests of the two
  servers both have distance 1 to it; in \<open>mixedTable\<close> the digest of the first server
  denotes 171 and that of the second server 0.\<close>

definition nearTable :: "(string \<times> string) list" where
  "nearTable = [(''a0'', ''10''), (''b0'', ''0C''), (''c0'', ''0f'')]"

definition tieTable :: "(string \<times> string) list" where
  "tieTable = [(''a0'', ''0c''), (''b0'', ''0e'')]"

definition mixedTable :: "(string \<times> string) list" where
  "mixedTable = [(''a0'', ''ab''), (''b0'', ''00'')]"

definition demoConfig :: "string list \<Rightarrow> Config" where
  "demoConfig matrixNodes = newConfig ''dApp'' ''pk'' matrixNodes None None False"

section \<open>The state store (MatrixClientStore)\<close>

subsection \<open>Rooms\<close>

text \<open>
  The enum \<^verbatim>\<open>MatrixRoomStatus\<close> is in the source.

  Modelled from the spec: the fields of \<^verbatim>\<open>MatrixRoom\<close> and of a message. The store
  reads \<^verbatim>\<open>room.id\<close> and writes \<^verbatim>\<open>room.messages\<close>, and the client reads
  \<^verbatim>\<open>room.members\<close>, but the class with these fields is not in the source (the one that
  is has an id and a status only): "opaque identifier plus status and a list of member
  addresses", and a message with "type, content, sender, timestamp".
\<close>

datatype MatrixRoomStatus = UNKNOWN | JOINED | INVITED | LEFT

datatype MatrixMessageType = TEXT | OtherMessageType string

record MatrixMessage =
  msg_type :: MatrixMessageType
  msg_sender :: string
  msg_content :: string
  msg_timestamp :: nat

record MatrixRoom =
  room_id :: string
  status :: MatrixRoomStatus
  members :: "string list"
  messages :: "MatrixMessage list"

text \<open>
  Modelled from the spec: \<^verbatim>\<open>MatrixRoom.merge(newState, previousState)\<close>, which is not in
  the source. "Per-room merge takes the newer status and unions members/messages,
  preserving history from the prior snapshot"; a room with no prior snapshot is taken as
  it is.
\<close>

definition merge :: "MatrixRoom \<Rightarrow> MatrixRoom option \<Rightarrow> MatrixRoom" where
  "merge newState previousState =
     (case previousState of
        None \<Rightarrow> newState
      | Some prev \<Rightarrow>
          \<lparr> room_id = room_id newState,
            status = status newState,
            members = remdups (members prev @ members newState),
            messages = messages prev @ messages newState \<rparr>)"

subsection \<open>State and partial states\<close>

text \<open>
  A JavaScript object with string keys is an association list in insertion order
  (\<open>AList.update\<close> overwrites in place or appends, as an assignment to a property does).
  \<^verbatim>\<open>number\<close> fields are integers. \<^verbatim>\<open>Partial<MatrixState>\<close> has every field optional:
  \<open>None\<close> is a field that is absent or \<^verbatim>\<open>undefined\<close>. The \<open>rooms\<close> of a partial state
  are an array (in an update) or a record (in the stored blob).
\<close>

record MatrixState =
  isRunning :: bool
  userId :: "string option"
  deviceId :: "string option"
  txnNo :: int
  accessToken :: "string option"
  syncToken :: "string option"
  pollingTimeout :: "int option"
  pollingRetries :: int
  rooms :: "(string \<times> MatrixRoom) list"

datatype RoomsUpdate = RoomArray "MatrixRoom list" | RoomRecord "(string \<times> MatrixRoom) list"

record PartialState =
  u_isRunning :: "bool option"
  u_userId :: "string option"
  u_deviceId :: "string option"
  u_txnNo :: "int option"
  u_accessToken :: "string option"
  u_syncToken :: "string option"
  u_pollingTimeout :: "int option"
  u_pollingRetries :: "int option"
  u_rooms :: "RoomsUpdate option"

definition emptyPartial :: PartialState where
  "emptyPartial =
     \<lparr> u_isRunning = None, u_userId = None, u_deviceId = None, u_txnNo = None,
       u_accessToken = None, u_syncToken = None, u_pollingTimeout = None,
       u_pollingRetries = None, u_rooms = None \<rparr>"

definition initialState :: MatrixState where
  "initialState =
     \<lparr> isRunning = False, userId = None, deviceId = None, txnNo = 0, accessToken = None,
       syncToken = None, pollingTimeout = None, pollingRetries = 0, rooms = [] \<rparr>"

text \<open>\<^verbatim>\<open>Boolean(value)\<close> for the three primitive types: \<^verbatim>\<open>false\<close>, the empty string,
  \<^verbatim>\<open>0\<close> and \<^verbatim>\<open>undefined\<close> are falsy. An array or an object is truthy, also when empty.\<close>

definition truthyBool :: "bool option \<Rightarrow> bool" where
  "truthyBool v = (v = Some True)"

definition truthyString :: "string option \<Rightarrow> bool" where
  "truthyString v = (case v of None \<Rightarrow> False | Some s \<Rightarrow> s \<noteq> [])"

definition truthyNumber :: "int option \<Rightarrow> bool" where
  "truthyNumber v = (case v of None \<Rightarrow> False | Some n \<Rightarrow> n \<noteq> 0)"

definition truthyRooms :: "RoomsUpdate option \<Rightarrow> bool" where
  "truthyRooms v = (v \<noteq> None)"

text \<open>\<^verbatim>\<open>partial.x || state.x\<close>, for a required boolean, an optional string, a required
  number and an optional number.\<close>

definition orBool :: "bool option \<Rightarrow> bool \<Rightarrow> bool" where
  "orBool v old = (if truthyBool v then True else old)"

definition orString :: "string option \<Rightarrow> string option \<Rightarrow> string option" where
  "orString v old = (if truthyString v then v else old)"

definition orNumber :: "int option \<Rightarrow> int \<Rightarrow> int" where
  "orNumber v old = (case v of None \<Rightarrow> old | Some n \<Rightarrow> if n \<noteq> 0 then n else old)"

definition orNumberOpt :: "int option \<Rightarrow> int option \<Rightarrow> int option" where
  "orNumberOpt v old = (if truthyNumber v then v else old)"

subsection \<open>setState and mergeRooms\<close>

definition objectValues :: "RoomsUpdate \<Rightarrow> MatrixRoom list" where
  "objectValues newRooms = (case newRooms of RoomArray rs \<Rightarrow> rs | RoomRecord m \<Rightarrow> map snd m)"

definition mergeRooms ::
  "(string \<times> MatrixRoom) list \<Rightarrow> RoomsUpdate option \<Rightarrow> (string \<times> MatrixRoom) list" where
  "mergeRooms oldRooms newRooms' =
     (case newRooms' of
        None \<Rightarrow> oldRooms
      | Some nr \<Rightarrow>
          foldl (\<lambda>merged newRoom.
                   AList.update (room_id newRoom)
                     (merge newRoom (map_of oldRooms (room_id newRoom))) merged)
                oldRooms (objectValues nr))"

definition setState :: "MatrixState \<Rightarrow> PartialState \<Rightarrow> MatrixState" where
  "setState st partialState =
     \<lparr> isRunning = orBool (u_isRunning partialState) (isRunning st),
       userId = orString (u_userId partialState) (userId st),
       deviceId = orString (u_deviceId partialState) (deviceId st),
       txnNo = orNumber (u_txnNo partialState) (txnNo st),
       accessToken = orString (u_accessToken partialState) (accessToken st),
       syncToken = orString (u_syncToken partialState) (syncToken st),
       pollingTimeout = orNumberOpt (u_pollingTimeout partialState) (pollingTimeout st),
       pollingRetries = orNumber (u_pollingRetries partialState) (pollingRetries st),
       rooms = mergeRooms (rooms st) (u_rooms partialState) \<rparr>"

subsection \<open>Persistence\<close>

text \<open>
  The keys of \<^verbatim>\<open>MatrixState\<close>, and \<^verbatim>\<open>Object.entries(stateUpdate)\<close> as the list of the
  keys that carry a value, each with \<^verbatim>\<open>Boolean(value)\<close> (a key that carries
  \<^verbatim>\<open>undefined\<close> is falsy and never passes the filter, so it is left out). The keys come
  in the order of the fields of the state; the code walks the keys of the update in the
  order in which the caller wrote them, which a record does not keep. That order shows
  only in the order of the calls to the listeners of single keys, and nothing below
  depends on it.
\<close>

datatype StateKey =
  IsRunning | UserId | DeviceId | TxnNo | AccessToken | SyncToken | PollingTimeout
  | PollingRetries | Rooms

definition PRESERVED_FIELDS :: "StateKey list" where
  "PRESERVED_FIELDS = [SyncToken, Rooms]"

definition entries :: "PartialState \<Rightarrow> (StateKey \<times> bool) list" where
  "entries u =
     (if u_isRunning u \<noteq> None then [(IsRunning, truthyBool (u_isRunning u))] else [])
     @ (if u_userId u \<noteq> None then [(UserId, truthyString (u_userId u))] else [])
     @ (if u_deviceId u \<noteq> None then [(DeviceId, truthyString (u_deviceId u))] else [])
     @ (if u_txnNo u \<noteq> None then [(TxnNo, truthyNumber (u_txnNo u))] else [])
     @ (if u_accessToken u \<noteq> None then [(AccessToken, truthyString (u_accessToken u))] else [])
     @ (if u_syncToken u \<noteq> None then [(SyncToken, truthyString (u_syncToken u))] else [])
     @ (if u_pollingTimeout u \<noteq> None then [(PollingTimeout, truthyNumber (u_pollingTimeout u))] else [])
     @ (if u_pollingRetries u \<noteq> None then [(PollingRetries, truthyNumber (u_pollingRetries u))] else [])
     @ (if u_rooms u \<noteq> None then [(Rooms, truthyRooms (u_rooms u))] else [])"

text \<open>
  \<open>prepareData\<close> on values: the copy made by \<^verbatim>\<open>JSON.parse(JSON.stringify(toStore))\<close> has
  the same content, and every room of the result has its \<open>messages\<close> emptied. (What the
  copy means for the objects of the state is the subject of \<open>prepareDataHeap\<close> below.)
\<close>

definition clearMessages :: "RoomsUpdate \<Rightarrow> RoomsUpdate" where
  "clearMessages rs =
     (case rs of
        RoomArray xs \<Rightarrow> RoomArray (map (\<lambda>room. room\<lparr>messages := []\<rparr>) xs)
      | RoomRecord m \<Rightarrow> RoomRecord (map (\<lambda>(k, room). (k, room\<lparr>messages := []\<rparr>)) m))"

definition jsonRoundTrip :: "PartialState \<Rightarrow> PartialState" where
  "jsonRoundTrip toStore = toStore"

definition prepareData :: "PartialState \<Rightarrow> PartialState" where
  "prepareData toStore =
     (let toStoreCopy = (if u_rooms toStore \<noteq> None then jsonRoundTrip toStore else toStore)
      in toStoreCopy\<lparr>u_rooms := map_option clearMessages (u_rooms toStoreCopy)\<rparr>)"

definition filteredState :: "MatrixState \<Rightarrow> PartialState" where
  "filteredState st =
     emptyPartial\<lparr>u_syncToken := syncToken st, u_rooms := Some (RoomRecord (rooms st))\<rparr>"

text \<open>
  \<open>updateStorage\<close> gives the value handed to \<^verbatim>\<open>storage.set\<close> under the key of the
  preserved state, or \<open>None\<close> when \<^verbatim>\<open>storage.set\<close> is not called. The JSON text is
  represented by the partial state it encodes: \<^verbatim>\<open>JSON.stringify\<close> drops a field that is
  \<^verbatim>\<open>undefined\<close>, which is \<open>None\<close> here, and \<^verbatim>\<open>JSON.parse\<close> gives the fields back.
\<close>

definition updateStorage :: "MatrixState \<Rightarrow> PartialState \<Rightarrow> PartialState option" where
  "updateStorage st stateUpdate =
     (let updatedCachedFields =
            filter (\<lambda>(k, v). k \<in> set PRESERVED_FIELDS \<and> v) (entries stateUpdate)
      in if length updatedCachedFields > 0
         then Some (prepareData (filteredState st))
         else None)"

subsection \<open>The store: hydration, update, listeners\<close>

datatype ListenerKey = AllKeys | OneKey StateKey

record MatrixClientStore =
  state :: MatrixState
  storage :: "PartialState option"
  onStateChangedListeners :: "(ListenerKey \<times> nat) list"
  notified :: "(nat \<times> MatrixState \<times> MatrixState \<times> PartialState) list"

text \<open>A listener is a number; \<open>notified\<close> is the list of the calls made to listeners so
  far, each with the listener and its three arguments.\<close>

definition initFromStorage :: "PartialState option \<Rightarrow> MatrixState" where
  "initFromStorage preserved =
     setState initialState (case preserved of Some blob \<Rightarrow> blob | None \<Rightarrow> emptyPartial)"

definition newStore :: "PartialState option \<Rightarrow> MatrixClientStore" where
  "newStore preserved =
     \<lparr> state = initFromStorage preserved, storage = preserved,
       onStateChangedListeners = [], notified = [] \<rparr>"

definition onStateChanged :: "nat \<Rightarrow> StateKey list \<Rightarrow> MatrixClientStore \<Rightarrow> MatrixClientStore" where
  "onStateChanged listener subscribed store =
     store\<lparr>onStateChangedListeners :=
       (if length subscribed > 0
        then foldl (\<lambda>m k. AList.update (OneKey k) listener m) (onStateChangedListeners store) subscribed
        else AList.update AllKeys listener (onStateChangedListeners store))\<rparr>"

definition notifyListeners ::
  "(ListenerKey \<times> nat) list \<Rightarrow> MatrixState \<Rightarrow> MatrixState \<Rightarrow> PartialState
   \<Rightarrow> (nat \<times> MatrixState \<times> MatrixState \<times> PartialState) list" where
  "notifyListeners ls oldState newState stateChange =
     (case map_of ls AllKeys of
        None \<Rightarrow> []
      | Some listenForAll \<Rightarrow> [(listenForAll, oldState, newState, stateChange)])
     @ concat (map (\<lambda>(k, v).
                 case map_of ls (OneKey k) of
                   None \<Rightarrow> []
                 | Some listener \<Rightarrow> [(listener, oldState, newState, stateChange)])
               (entries stateChange))"

text \<open>\<open>update\<close> runs after the hydration (\<open>newStore\<close> has completed it): the new state,
  the write to storage if any, the calls to the listeners.\<close>

definition update :: "MatrixClientStore \<Rightarrow> PartialState \<Rightarrow> MatrixClientStore" where
  "update store stateUpdate =
     (let oldState = state store;
          newState = setState oldState stateUpdate
      in store\<lparr> state := newState,
                storage := (case updateStorage newState stateUpdate of
                              None \<Rightarrow> storage store
                            | Some blob \<Rightarrow> Some blob),
                notified := notified store
                  @ notifyListeners (onStateChangedListeners store) oldState newState stateUpdate \<rparr>)"

subsection \<open>prepareData on objects\<close>

text \<open>
  \<open>prepareData\<close> assigns to \<^verbatim>\<open>room.messages\<close>, so whether the rooms of the state are
  changed depends on which objects the argument shares with the state. Here a room object
  is an address into a heap (a list of rooms; a new object takes the next address), and a
  rooms record maps room ids to addresses. \<open>filteredState\<close> is a new object whose
  \<open>rooms\<close> field is the state's own rooms record. The copy through JSON allocates a new
  room object for every room; without the copy the argument itself is returned.
\<close>

type_synonym heap = "MatrixRoom list"

record HeapPartial =
  hp_syncToken :: "string option"
  hp_rooms :: "(string \<times> nat) list option"

definition jsonCopy :: "heap \<Rightarrow> HeapPartial \<Rightarrow> HeapPartial \<times> heap" where
  "jsonCopy h toStore =
     (case hp_rooms toStore of
        None \<Rightarrow> (toStore, h)
      | Some rs \<Rightarrow>
          (toStore\<lparr>hp_rooms := Some (zip (map fst rs) [length h ..< length h + length rs])\<rparr>,
           h @ map (\<lambda>(k, a). h ! a) rs))"

definition clearMessagesAt :: "heap \<Rightarrow> nat list \<Rightarrow> heap" where
  "clearMessagesAt h as = foldl (\<lambda>h' a. h'[a := (h' ! a)\<lparr>messages := []\<rparr>]) h as"

definition prepareDataHeap :: "heap \<Rightarrow> HeapPartial \<Rightarrow> HeapPartial \<times> heap" where
  "prepareDataHeap h toStore =
     (let (toStoreCopy, h1) =
            (if hp_rooms toStore \<noteq> None then jsonCopy h toStore else (toStore, h))
      in (toStoreCopy,
          clearMessagesAt h1 (case hp_rooms toStoreCopy of None \<Rightarrow> [] | Some rs \<Rightarrow> map snd rs)))"

text \<open>The value that an object denotes in a heap.\<close>

definition readBack :: "heap \<Rightarrow> HeapPartial \<Rightarrow> PartialState" where
  "readBack h hp =
     emptyPartial\<lparr> u_syncToken := hp_syncToken hp,
                   u_rooms := map_option (\<lambda>rs. RoomRecord (map (\<lambda>(k, a). (k, h ! a)) rs))
                                (hp_rooms hp) \<rparr>"

definition wellFormed :: "heap \<Rightarrow> HeapPartial \<Rightarrow> bool" where
  "wellFormed h hp =
     (case hp_rooms hp of None \<Rightarrow> True | Some rs \<Rightarrow> list_all (\<lambda>(k, a). a < length h) rs)"

subsection \<open>A concrete store\<close>

text \<open>For the examples: a running store with a transaction number, a retry count, a sync
  token and a room that holds a message; an update whose fields are all falsy; and an
  update with one room that carries a message.\<close>

definition demoMessage :: MatrixMessage where
  "demoMessage = \<lparr> msg_type = TEXT, msg_sender = ''@peer'', msg_content = ''hello'', msg_timestamp = 7 \<rparr>"

definition demoRoom :: MatrixRoom where
  "demoRoom = \<lparr> room_id = ''!r'', status = JOINED, members = [''@me''], messages = [demoMessage] \<rparr>"

definition demoStore :: MatrixClientStore where
  "demoStore =
     \<lparr> state = \<lparr> isRunning = True, userId = Some ''@me'', deviceId = Some ''dev'', txnNo = 5,
                 accessToken = Some ''token'', syncToken = Some ''s1'', pollingTimeout = Some 30000,
                 pollingRetries = 2, rooms = [(''!r'', demoRoom)] \<rparr>,
       storage = None,
       onStateChangedListeners = [(AllKeys, 1)],
       notified = [] \<rparr>"

definition falsyUpdate :: PartialState where
  "falsyUpdate =
     \<lparr> u_isRunning = Some False, u_userId = Some [], u_deviceId = None, u_txnNo = Some 0,
       u_accessToken = Some [], u_syncToken = Some [], u_pollingTimeout = Some 0,
       u_pollingRetries = Some 0, u_rooms = None \<rparr>"

definition roomUpdate :: PartialState where
  "roomUpdate = emptyPartial\<lparr>u_rooms := Some (RoomArray [demoRoom])\<rparr>"

definition demoHeap :: heap where
  "demoHeap = [demoRoom]"

definition demoHeapPartial :: HeapPartial where
  "demoHeapPartial = \<lparr> hp_syncToken = Some ''s1'', hp_rooms = Some [(''!r'', 0)] \<rparr>"

section \<open>The pairing and messaging client (P2PCommunicationClient)\<close>

subsection \<open>Errors, effects and the world\<close>

text \<open>
  A thrown value is either a JavaScript \<^verbatim>\<open>Error\<close> with its message, or a rejection of
  the Matrix client with its \<^verbatim>\<open>errcode\<close>. An \<^verbatim>\<open>async\<close> method returns an error or a
  value, together with the world it leaves behind; effects made before a throw stay.
\<close>

datatype error = Error string | Rejected string

definition errcode :: "error \<Rightarrow> string option" where
  "errcode e = (case e of Error m \<Rightarrow> None | Rejected c \<Rightarrow> Some c)"

definition clientNotReadyError :: error where
  "clientNotReadyError =
     Error ''Client not ready. Make sure to call \"start\" before you try to use it.''"

datatype EventType = MESSAGE | INVITE

datatype Listener =
  InitialListener | InviteListener | EncryptedMessageListener string | ChannelOpeningListener

record MatrixClientEvent =
  ev_roomId :: string
  ev_message :: MatrixMessage
  ev_timestamp :: "nat option"

text \<open>
  Everything the client does to the outside is an entry of the trace: the calls to the
  Matrix client, the timers, the calls to the caller's callbacks, the log lines (with
  their constant arguments), and the rejections that nothing handles.
\<close>

datatype Effect =
    JoinRooms "string list"
  | CreateTrustedPrivateRoom "string list"
  | InviteToRooms string "string list"
  | SendTextMessage string string
  | GetRoomById string
  | GetJoinedRooms
  | Subscribe EventType Listener
  | Unsubscribe EventType "Listener option"
  | SetTimeout nat
  | MessageCallback string string
  | GenerateGUID
  | Log "string list"
  | LogError "string list"
  | UnhandledRejection error

text \<open>
  The world: the fields of the client that change (\<open>client\<close> is \<^verbatim>\<open>this.client\<close>, the
  base url of the Matrix client once \<^verbatim>\<open>start\<close> has created it and \<open>None\<close> while it is
  \<^verbatim>\<open>undefined\<close>), the two entries of the persistent storage that the client owns, the
  clock in milliseconds, and the trace. \<^verbatim>\<open>start\<close> and \<^verbatim>\<open>stop\<close> are not modelled: a
  started client is a world whose \<open>client\<close> is set. The storage answers every read and
  write.
\<close>

record World =
  client :: "string option"
  initialEvent :: "MatrixClientEvent option"
  initialListener :: bool
  activeListeners :: "string list"
  peerRoomIds :: "(string \<times> string) list"
  standbyRoom :: "string option"
  now :: nat
  trace :: "Effect list"

text \<open>
  The Matrix client and the UUID generator are outside the source. Their answers are
  given by an environment: each answer may depend on the arguments of the call and on the
  number of effects made so far, so that successive calls can be answered differently.
  A rejection carries its \<^verbatim>\<open>errcode\<close>.
\<close>

record Env =
  joinRoomsResult :: "nat \<Rightarrow> string list \<Rightarrow> string option"
  createRoomResult :: "nat \<Rightarrow> string list \<Rightarrow> string + string"
  inviteResult :: "nat \<Rightarrow> string \<Rightarrow> string list \<Rightarrow> string option"
  sendResult :: "nat \<Rightarrow> string \<Rightarrow> string \<Rightarrow> string option"
  roomById :: "nat \<Rightarrow> string \<Rightarrow> MatrixRoom"
  joinedRoomsNow :: "nat \<Rightarrow> MatrixRoom list"
  guid :: "nat \<Rightarrow> string"

definition emit :: "Effect \<Rightarrow> World \<Rightarrow> World" where
  "emit e w = w\<lparr>trace := trace w @ [e]\<rparr>"

definition joinRooms :: "Env \<Rightarrow> string list \<Rightarrow> World \<Rightarrow> (error + unit) \<times> World" where
  "joinRooms env roomIds w =
     (case joinRoomsResult env (length (trace w)) roomIds of
        None \<Rightarrow> Inr ()
      | Some c \<Rightarrow> Inl (Rejected c),
      emit (JoinRooms roomIds) w)"

definition createTrustedPrivateRoom ::
  "Env \<Rightarrow> string list \<Rightarrow> World \<Rightarrow> (error + string) \<times> World" where
  "createTrustedPrivateRoom env invitees w =
     (case createRoomResult env (length (trace w)) invitees of
        Inl c \<Rightarrow> Inl (Rejected c)
      | Inr roomId \<Rightarrow> Inr roomId,
      emit (CreateTrustedPrivateRoom invitees) w)"

definition inviteToRooms ::
  "Env \<Rightarrow> string \<Rightarrow> string list \<Rightarrow> World \<Rightarrow> (error + unit) \<times> World" where
  "inviteToRooms env user roomIds w =
     (case inviteResult env (length (trace w)) user roomIds of
        None \<Rightarrow> Inr ()
      | Some c \<Rightarrow> Inl (Rejected c),
      emit (InviteToRooms user roomIds) w)"

definition sendTextMessage ::
  "Env \<Rightarrow> string \<Rightarrow> string \<Rightarrow> World \<Rightarrow> (error + unit) \<times> World" where
  "sendTextMessage env roomId message w =
     (case sendResult env (length (trace w)) roomId message of
        None \<Rightarrow> Inr ()
      | Some c \<Rightarrow> Inl (Rejected c),
      emit (SendTextMessage roomId message) w)"

definition getRoomById :: "Env \<Rightarrow> string \<Rightarrow> World \<Rightarrow> MatrixRoom \<times> World" where
  "getRoomById env roomId w = (roomById env (length (trace w)) roomId, emit (GetRoomById roomId) w)"

definition joinedRooms :: "Env \<Rightarrow> World \<Rightarrow> MatrixRoom list \<times> World" where
  "joinedRooms env w = (joinedRoomsNow env (length (trace w)), emit GetJoinedRooms w)"

definition generateGUID :: "Env \<Rightarrow> World \<Rightarrow> string \<times> World" where
  "generateGUID env w = (guid env (length (trace w)), emit GenerateGUID w)"

definition setTimeout :: "nat \<Rightarrow> World \<Rightarrow> World" where
  "setTimeout ms w = emit (SetTimeout ms) (w\<lparr>now := now w + ms\<rparr>)"

text \<open>
  A promise that nobody awaits runs to its end at the place where it is created; what it
  returns is dropped, and a rejection that no \<^verbatim>\<open>catch\<close> handles is recorded.
\<close>

definition detach :: "(error + 'a) \<times> World \<Rightarrow> World" where
  "detach r = (case r of (Inl e, w) \<Rightarrow> emit (UnhandledRejection e) w | (Inr v, w) \<Rightarrow> w)"

text \<open>The decimal digits of a number, for the messages that interpolate one.\<close>

definition digitChar :: "nat \<Rightarrow> char" where
  "digitChar d = ''0123456789'' ! d"

fun showNat :: "nat \<Rightarrow> string" where
  "showNat n =
     (if n < 10 then [digitChar n] else showNat (n div 10) @ [digitChar (n mod 10)])"

declare showNat.simps [simp del]

text \<open>A string that may be \<^verbatim>\<open>undefined\<close>, tested for truthiness: the string when it is
  defined and not empty.\<close>

definition whenTruthy :: "string option \<Rightarrow> string option" where
  "whenTruthy v = (case v of None \<Rightarrow> None | Some s \<Rightarrow> if s = [] then None else Some s)"

subsection \<open>Pairing descriptors\<close>

definition getPairingRequestInfo :: "Ext \<Rightarrow> Env \<Rightarrow> Config \<Rightarrow> World \<Rightarrow> Pairing \<times> World" where
  "getPairingRequestInfo ext env cfg w =
     (let (newId, w1) = generateGUID env w;
          info = \<lparr> p2p_id = newId,
                   p2p_type = ''p2p-pairing-request'',
                   p2p_name = name cfg,
                   p2p_version = Some (BEACON_VERSION ext),
                   p2p_publicKey = getPublicKey ext cfg,
                   p2p_relayServer = getRelayServer ext cfg None [],
                   p2p_icon = None,
                   p2p_appUrl = None \<rparr>;
          info1 = (if truthyString (iconUrl cfg) then info\<lparr>p2p_icon := iconUrl cfg\<rparr> else info);
          info2 = (if truthyString (appUrl cfg) then info1\<lparr>p2p_appUrl := appUrl cfg\<rparr> else info1)
      in (info2, w1))"

definition getPairingResponseInfo :: "Ext \<Rightarrow> Config \<Rightarrow> Pairing \<Rightarrow> Pairing" where
  "getPairingResponseInfo ext cfg request =
     (let info = \<lparr> p2p_id = p2p_id request,
                   p2p_type = ''p2p-pairing-response'',
                   p2p_name = name cfg,
                   p2p_version = Some (BEACON_VERSION ext),
                   p2p_publicKey = getPublicKey ext cfg,
                   p2p_relayServer = getRelayServer ext cfg None [],
                   p2p_icon = None,
                   p2p_appUrl = None \<rparr>;
          info1 = (if truthyString (iconUrl cfg) then info\<lparr>p2p_icon := iconUrl cfg\<rparr> else info);
          info2 = (if truthyString (appUrl cfg) then info1\<lparr>p2p_appUrl := appUrl cfg\<rparr> else info1)
      in info2)"

text \<open>
  Modelled from the spec: \<^verbatim>\<open>recipientString\<close> of \<^verbatim>\<open>utils/crypto\<close>, which is not in the
  source: "the string \<open>@<peerPublicKeyHash>:<relayServer>\<close>". A relay server that is
  \<^verbatim>\<open>undefined\<close> prints as such.
\<close>

definition recipientString :: "string \<Rightarrow> string option \<Rightarrow> string" where
  "recipientString recipientHash relayServer =
     ''@'' @ recipientHash @ '':''
       @ (case relayServer of None \<Rightarrow> ''undefined'' | Some r \<Rightarrow> r)"

text \<open>The recipient address of a peer, as \<open>sendMessage\<close> and \<open>sendPairingResponse\<close>
  both compute it from the peer's public key and relay server.\<close>

definition recipientOf :: "Ext \<Rightarrow> Pairing \<Rightarrow> string" where
  "recipientOf ext peer =
     (let recipientHash = getHexHash ext (fromHex ext (p2p_publicKey peer))
      in recipientString recipientHash (p2p_relayServer peer))"

subsection \<open>Joining\<close>

text \<open>The timer's callback is run where the timer is set, after the clock has advanced
  by the delay; \<open>tryJoinRooms\<close> itself has returned by then, so its caller never sees
  what the retry does.\<close>

function tryJoinRooms :: "Env \<Rightarrow> string \<Rightarrow> nat \<Rightarrow> World \<Rightarrow> (error + unit) \<times> World" where
  "tryJoinRooms env roomId retry w =
     (case client w of
        None \<Rightarrow> (Inl clientNotReadyError, w)
      | Some c \<Rightarrow>
          (case joinRooms env [roomId] w of
             (Inr u, w1) \<Rightarrow> (Inr (), w1)
           | (Inl err, w1) \<Rightarrow>
               if retry \<le> 10 \<and> errcode err = Some ''M_FORBIDDEN''
               then (Inr (),
                     detach (tryJoinRooms env roomId (retry + 1)
                       (setTimeout 200 (emit (Log [''Retrying to join...'']) w1))))
               else (Inr (),
                     emit (Log [''Failed to join after '' @ showNat retry @ '' tries.'']) w1)))"
  by pat_completeness auto
termination
  by (relation "measure (\<lambda>(env, roomId, retry, w). 11 - retry)") auto

declare tryJoinRooms.simps [simp del]

subsection \<open>The standby room\<close>

definition prepareStandbyRoom :: "Env \<Rightarrow> Config \<Rightarrow> World \<Rightarrow> (error + unit) \<times> World" where
  "prepareStandbyRoom env cfg w =
     (if \<not> isWallet cfg then (Inr (), w)
      else case client w of
        None \<Rightarrow> (Inl clientNotReadyError, w)
      | Some c \<Rightarrow>
          (case whenTruthy (standbyRoom w) of
             Some standby \<Rightarrow> (Inr (), w)
           | None \<Rightarrow>
               (case createTrustedPrivateRoom env [] w of
                  (Inl e, w1) \<Rightarrow> (Inl e, w1)
                | (Inr roomId, w1) \<Rightarrow> (Inr (), w1\<lparr>standbyRoom := Some roomId\<rparr>))))"

text \<open>\<^verbatim>\<open>this.prepareStandbyRoom().catch(err => logger.error(...))\<close>: not awaited, and a
  rejection is logged.\<close>

definition prepareStandbyRoomLogged :: "Env \<Rightarrow> Config \<Rightarrow> World \<Rightarrow> World" where
  "prepareStandbyRoomLogged env cfg w =
     (case prepareStandbyRoom env cfg w of
        (Inl e, w1) \<Rightarrow> emit (LogError [''start'', ''could not create standby room'']) w1
      | (Inr u, w1) \<Rightarrow> w1)"

definition getAndRemoveStandbyRoom ::
  "Env \<Rightarrow> Config \<Rightarrow> World \<Rightarrow> (error + string option) \<times> World" where
  "getAndRemoveStandbyRoom env cfg w =
     (if \<not> isWallet cfg then (Inr None, w)
      else case client w of
        None \<Rightarrow> (Inl clientNotReadyError, w)
      | Some c \<Rightarrow>
          (case whenTruthy (standbyRoom w) of
             None \<Rightarrow> (Inr None, w)
           | Some standby \<Rightarrow>
               (Inr (Some standby),
                prepareStandbyRoomLogged env cfg (w\<lparr>standbyRoom := None\<rparr>))))"

subsection \<open>Room routing\<close>

definition getRelevantJoinedRoom ::
  "Env \<Rightarrow> Config \<Rightarrow> string \<Rightarrow> World \<Rightarrow> (error + MatrixRoom) \<times> World" where
  "getRelevantJoinedRoom env cfg recipient w =
     (case client w of
        None \<Rightarrow> (Inl clientNotReadyError, w)
      | Some c \<Rightarrow>
          (let (joined, w0) = joinedRooms env w;
               w1 = emit (Log [''checking joined rooms'']) w0;
               relevantRooms = filter (\<lambda>roomElement. recipient \<in> set (members roomElement)) joined
           in case relevantRooms of
                room # _ \<Rightarrow>
                  (Inr room,
                   emit (Log [''getRelevantJoinedRoom'', ''channel already open, reusing room '' @ room_id room]) w1)
              | [] \<Rightarrow>
                  (case getAndRemoveStandbyRoom env cfg
                          (emit (Log [''getRelevantJoinedRoom'', ''no relevant rooms found'']) w1) of
                     (Inl e, w2) \<Rightarrow> (Inl e, w2)
                   | (Inr standby, w2) \<Rightarrow>
                       (case (case whenTruthy standby of
                                Some standbyRoomId \<Rightarrow>
                                  (case inviteToRooms env recipient [standbyRoomId]
                                          (emit (Log [''getRelevantJoinedRoom'', ''using standby room'']) w2) of
                                     (Inl e, w3) \<Rightarrow> (Inl e, w3)
                                   | (Inr u, w3) \<Rightarrow> (Inr standbyRoomId, w3))
                              | None \<Rightarrow>
                                  createTrustedPrivateRoom env [recipient]
                                    (emit (Log [''getRelevantJoinedRoom'', ''creating new room'']) w2)) of
                          (Inl e, w3) \<Rightarrow> (Inl e, w3)
                        | (Inr roomId, w3) \<Rightarrow>
                            (let (room, w4) = getRoomById env roomId w3
                             in (Inr room, emit (Log [''getRelevantJoinedRoom'']) w4))))))"

text \<open>\<^verbatim>\<open>roomIds[recipient] = room.id\<close> changes the object read at the start, and that
  object is written back.\<close>

definition getRelevantRoom ::
  "Env \<Rightarrow> Config \<Rightarrow> string \<Rightarrow> World \<Rightarrow> (error + string) \<times> World" where
  "getRelevantRoom env cfg recipient w =
     (let roomIds = peerRoomIds w
      in case whenTruthy (map_of roomIds recipient) of
           Some roomId \<Rightarrow>
             (Inr roomId, emit (Log [''getRelevantRoom'', ''Using room '' @ roomId]) w)
         | None \<Rightarrow>
             (case getRelevantJoinedRoom env cfg recipient
                      (emit (Log [''getRelevantRoom'',
                                  ''No room found for peer '' @ recipient @ '', checking joined ones.'']) w) of
                 (Inl e, w1) \<Rightarrow> (Inl e, w1)
               | (Inr room, w1) \<Rightarrow>
                   (Inr (room_id room),
                    emit (Log [''getRelevantRoom'', ''Using room '' @ room_id room])
                      (w1\<lparr>peerRoomIds := AList.update recipient (room_id room) roomIds\<rparr>))))"

definition deleteRoomIdFromRooms :: "string \<Rightarrow> World \<Rightarrow> World" where
  "deleteRoomIdFromRooms roomId w =
     (let roomIds = peerRoomIds w;
          newRoomIds = foldl (\<lambda>pv cv. AList.update (fst cv) (snd cv) pv) []
                         (filter (\<lambda>entry. snd entry \<noteq> roomId) roomIds)
      in w\<lparr>peerRoomIds := newRoomIds\<rparr>)"

subsection \<open>Sending\<close>

text \<open>
  The handler given to \<^verbatim>\<open>catch\<close> by \<open>sendMessage\<close>. It is an \<^verbatim>\<open>async\<close> function of its
  own: what it throws rejects a promise that nobody holds.
\<close>

definition sendMessageCatch ::
  "Env \<Rightarrow> Config \<Rightarrow> string \<Rightarrow> string \<Rightarrow> string \<Rightarrow> error \<Rightarrow> World \<Rightarrow> (error + unit) \<times> World" where
  "sendMessageCatch env cfg recipient roomId encryptedMessage err w =
     (if errcode err = Some ''M_FORBIDDEN''
      then (case getRelevantRoom env cfg recipient
                   (deleteRoomIdFromRooms roomId (emit (Log [''sendMessage'', ''M_FORBIDDEN'']) w)) of
              (Inl e, w1) \<Rightarrow> (Inl e, w1)
            | (Inr newRoomId, w1) \<Rightarrow>
                (case client w1 of
                   None \<Rightarrow> (Inl clientNotReadyError, w1)
                 | Some c \<Rightarrow>
                     (case sendTextMessage env newRoomId encryptedMessage w1 of
                        (Inr u, w2) \<Rightarrow> (Inr (), w2)
                      | (Inl error2, w2) \<Rightarrow>
                          (Inr (), emit (Log [''sendMessage'', ''inner error'']) w2))))
      else (Inr (), emit (Log [''sendMessage'', ''not forbidden'']) w))"

text \<open>\<open>sendMessage\<close> does not await the send: it returns once the send is issued, and
  the send with its handler runs on.\<close>

definition sendMessage ::
  "Ext \<Rightarrow> Env \<Rightarrow> Config \<Rightarrow> string \<Rightarrow> Pairing \<Rightarrow> World \<Rightarrow> (error + unit) \<times> World" where
  "sendMessage ext env cfg message peer w =
     (case client w of
        None \<Rightarrow> (Inl clientNotReadyError, w)
      | Some c \<Rightarrow>
          (let key = sharedTx ext (p2p_publicKey peer);
               recipient = recipientOf ext peer
           in case getRelevantRoom env cfg recipient w of
                (Inl e, w1) \<Rightarrow> (Inl e, w1)
              | (Inr roomId, w1) \<Rightarrow>
                  (let encryptedMessage = encryptCryptoboxPayload ext message key
                   in (Inr (),
                       case sendTextMessage env roomId encryptedMessage w1 of
                         (Inr u, w2) \<Rightarrow> w2
                       | (Inl err, w2) \<Rightarrow>
                           detach (sendMessageCatch env cfg recipient roomId encryptedMessage err w2)))))"

subsection \<open>Waiting for the peer to join, and the pairing response\<close>

text \<open>The delay before the next poll, \<^verbatim>\<open>100 * (retry > 50 ? 10 : 1)\<close> milliseconds, and
  the sum of the delays from a retry count on: no timer is set once the count is over
  200.\<close>

definition joinDelay :: "nat \<Rightarrow> nat" where
  "joinDelay retry = 100 * (if retry > 50 then 10 else 1)"

definition waitBudget :: "nat \<Rightarrow> nat" where
  "waitBudget retry = sum_list (map joinDelay [retry ..< 201])"

text \<open>The poll: \<^verbatim>\<open>getRoomById\<close> and the log line, giving the number of members seen.\<close>

definition observeRoom :: "Env \<Rightarrow> string \<Rightarrow> World \<Rightarrow> nat \<times> World" where
  "observeRoom env roomId w =
     (let (room, w0) = getRoomById env roomId w
      in (length (members room),
          emit (Log [''waitForJoin'',
                     ''Currently '' @ showNat (length (members room)) @ '' members, we need at least 2''])
            w0))"

function waitForJoin :: "Env \<Rightarrow> string \<Rightarrow> nat \<Rightarrow> World \<Rightarrow> (error + unit) \<times> World" where
  "waitForJoin env roomId retry w =
     (case client w of
        None \<Rightarrow> (Inl clientNotReadyError, w)
      | Some c \<Rightarrow>
          if fst (observeRoom env roomId w) \<ge> 2
          then (Inr (), snd (observeRoom env roomId w))
          else if retry \<le> 200
          then waitForJoin env roomId (retry + 1)
                 (setTimeout (joinDelay retry)
                    (emit (Log [''Waiting for join... Try: '' @ showNat retry])
                       (snd (observeRoom env roomId w))))
          else (Inl (Error (''No one joined after '' @ showNat retry @ '' tries.'')),
                snd (observeRoom env roomId w)))"
  by pat_completeness auto
termination
  by (relation "measure (\<lambda>(env, roomId, retry, w). 201 - retry)") auto

declare waitForJoin.simps [simp del]

definition sendPairingResponse ::
  "Ext \<Rightarrow> Env \<Rightarrow> Config \<Rightarrow> Pairing \<Rightarrow> World \<Rightarrow> (error + unit) \<times> World" where
  "sendPairingResponse ext env cfg pairingRequest w =
     (case client w of
        None \<Rightarrow> (Inl clientNotReadyError, w)
      | Some c \<Rightarrow>
          (let recipient = recipientOf ext pairingRequest
           in case getRelevantRoom env cfg recipient (emit (Log [''sendPairingResponse'']) w) of
                (Inl e, w1) \<Rightarrow> (Inl e, w1)
              | (Inr roomId, w1) \<Rightarrow>
                  (case waitForJoin env roomId 0 w1 of
                     (Inl e, w2) \<Rightarrow> (Inl e, w2)
                   | (Inr u, w2) \<Rightarrow>
                       (let message =
                              (case p2p_version pairingRequest of
                                 None \<Rightarrow> getPublicKey ext cfg
                               | Some v \<Rightarrow> stringify ext (getPairingResponseInfo ext cfg pairingRequest));
                            encryptedMessage =
                              encryptMessageAsymmetric ext (p2p_publicKey pairingRequest) message
                        in (Inr (),
                            case sendTextMessage env roomId
                                   (''@channel-open'' @ '':'' @ recipient @ '':'' @ encryptedMessage) w2 of
                              (Inr u', w3) \<Rightarrow> w3
                            | (Inl err, w3) \<Rightarrow> emit (Log []) w3)))))"

subsection \<open>Listening\<close>

definition isTextMessage :: "MatrixClientEvent \<Rightarrow> bool" where
  "isTextMessage event = (msg_type (ev_message event) = TEXT)"

definition startsWith :: "string \<Rightarrow> string \<Rightarrow> bool" where
  "startsWith s p = (take (length p) s = p)"

definition isSender :: "Ext \<Rightarrow> MatrixClientEvent \<Rightarrow> string \<Rightarrow> bool" where
  "isSender ext event senderPublicKey =
     startsWith (msg_sender (ev_message event))
       (''@'' @ getHexHash ext (fromHex ext senderPublicKey))"

text \<open>The listener that \<open>listenForEncryptedMessage\<close> installs for a sender; 40 is
  \<^verbatim>\<open>crypto_secretbox_NONCEBYTES + crypto_secretbox_MACBYTES\<close> (24 + 16, as the
  specification gives them).\<close>

definition callbackFunction :: "Ext \<Rightarrow> string \<Rightarrow> MatrixClientEvent \<Rightarrow> World \<Rightarrow> World" where
  "callbackFunction ext senderPublicKey event w =
     (if isTextMessage event \<and> isSender ext event senderPublicKey
      then (let payload = fromHex ext (msg_content (ev_message event))
            in if length payload \<ge> 24 + 16
               then (case decryptCryptoboxPayload ext payload (sharedRx ext senderPublicKey) of
                       Some decryptedMessage \<Rightarrow> emit (MessageCallback senderPublicKey decryptedMessage) w
                     | None \<Rightarrow> w)
               else w)
      else w)"

text \<open>\<^verbatim>\<open>lastEvent && lastEvent.timestamp && new Date().getTime() - lastEvent.timestamp <
  5 * 60 * 1000\<close>, the difference being an integer that may be negative.\<close>

definition recentEvent :: "nat \<Rightarrow> MatrixClientEvent option \<Rightarrow> bool" where
  "recentEvent time lastEvent =
     (case lastEvent of
        None \<Rightarrow> False
      | Some ev \<Rightarrow>
          (case ev_timestamp ev of
             None \<Rightarrow> False
           | Some ts \<Rightarrow> ts \<noteq> 0 \<and> int time - int ts < 5 * 60 * 1000))"

definition listenForEncryptedMessage ::
  "Ext \<Rightarrow> string \<Rightarrow> World \<Rightarrow> (error + unit) \<times> World" where
  "listenForEncryptedMessage ext senderPublicKey w =
     (case client w of
        None \<Rightarrow> (Inl clientNotReadyError, w)
      | Some c \<Rightarrow>
          if senderPublicKey \<in> set (activeListeners w) then (Inr (), w)
          else
            (let w1 = emit (Subscribe MESSAGE (EncryptedMessageListener senderPublicKey))
                        (w\<lparr>activeListeners := activeListeners w @ [senderPublicKey]\<rparr>);
                 w2 = (if recentEvent (now w1) (initialEvent w1)
                       then (case initialEvent w1 of
                               None \<Rightarrow> w1
                             | Some lastEvent \<Rightarrow>
                                 callbackFunction ext senderPublicKey lastEvent
                                   (emit (Log [''listenForEncryptedMessage'', ''Handling previous event'']) w1))
                       else emit (Log [''listenForEncryptedMessage'', ''No previous event found'']) w1);
                 w3 = (if initialListener w2
                       then emit (Unsubscribe MESSAGE (Some InitialListener)) w2
                       else w2)
             in (Inr (), w3\<lparr>initialListener := False, initialEvent := None\<rparr>)))"

definition unsubscribeFromEncryptedMessage :: "string \<Rightarrow> World \<Rightarrow> (error + unit) \<times> World" where
  "unsubscribeFromEncryptedMessage senderPublicKey w =
     (case client w of
        None \<Rightarrow> (Inl clientNotReadyError, w)
      | Some c \<Rightarrow>
          if senderPublicKey \<notin> set (activeListeners w) then (Inr (), w)
          else (Inr (),
                (emit (Unsubscribe MESSAGE (Some (EncryptedMessageListener senderPublicKey))) w)
                  \<lparr>activeListeners := removeAll senderPublicKey (activeListeners w)\<rparr>))"

definition unsubscribeFromEncryptedMessages :: "World \<Rightarrow> (error + unit) \<times> World" where
  "unsubscribeFromEncryptedMessages w =
     (case client w of
        None \<Rightarrow> (Inl clientNotReadyError, w)
      | Some c \<Rightarrow> (Inr (), (emit (Unsubscribe MESSAGE None) w)\<lparr>activeListeners := []\<rparr>))"

definition listenForChannelOpening :: "World \<Rightarrow> (error + unit) \<times> World" where
  "listenForChannelOpening w =
     (case client w of
        None \<Rightarrow> (Inl clientNotReadyError, w)
      | Some c \<Rightarrow> (Inr (), emit (Subscribe MESSAGE ChannelOpeningListener) w))"

subsection \<open>The sends of a trace\<close>

definition isSend :: "Effect \<Rightarrow> bool" where
  "isSend e = (case e of SendTextMessage roomId message \<Rightarrow> True | _ \<Rightarrow> False)"

definition sends :: "World \<Rightarrow> Effect list" where
  "sends w = filter isSend (trace w)"

definition timers :: "World \<Rightarrow> Effect list" where
  "timers w = filter (\<lambda>e. case e of SetTimeout ms \<Rightarrow> True | _ \<Rightarrow> False) (trace w)"

text \<open>What the standby operations and the scan of the joined rooms leave untouched:
  they send nothing, they keep the client and the routing cache.\<close>

definition routingFrame :: "World \<Rightarrow> World \<Rightarrow> bool" where
  "routingFrame w w' =
     (sends w' = sends w \<and> client w' = client w \<and> peerRoomIds w' = peerRoomIds w)"

subsection \<open>A concrete environment\<close>

text \<open>
  An environment and a started wallet for the examples: sends into the room \<open>!X\<close> are
  rejected as forbidden, every other call succeeds, new rooms are named \<open>!Y\<close>, no room is
  joined, a room has the one member \<open>@me\<close> unless it is \<open>!J\<close>, which has two, and the
  generated ids count the effects made so far.
\<close>

definition demoEnv :: Env where
  "demoEnv =
     \<lparr> joinRoomsResult = (\<lambda>n ids. None),
       createRoomResult = (\<lambda>n invitees. Inr ''!Y''),
       inviteResult = (\<lambda>n user ids. None),
       sendResult = (\<lambda>n roomId message. if roomId = ''!X'' then Some ''M_FORBIDDEN'' else None),
       roomById = (\<lambda>n roomId.
          \<lparr> room_id = roomId, status = JOINED,
            members = (if roomId = ''!J'' then [''@me'', ''@peer''] else [''@me'']),
            messages = [] \<rparr>),
       joinedRoomsNow = (\<lambda>n. []),
       guid = (\<lambda>n. replicate n CHR ''g'') \<rparr>"

text \<open>Two variants: an environment in which no room can be created, and one in which the
  room \<open>!X\<close> is among the joined rooms and has the peer \<open>@00:relay\<close> as a member.\<close>

definition failingEnv :: Env where
  "failingEnv = demoEnv\<lparr>createRoomResult := (\<lambda>n invitees. Inl ''M_LIMIT_EXCEEDED'')\<rparr>"

definition staleEnv :: Env where
  "staleEnv =
     demoEnv\<lparr>joinedRoomsNow :=
       (\<lambda>n. [\<lparr> room_id = ''!X'', status = JOINED, members = [''@me'', ''@00:relay''],
                 messages = [] \<rparr>])\<rparr>"

definition newWorld :: World where
  "newWorld =
     \<lparr> client = None, initialEvent = None, initialListener = False, activeListeners = [],
       peerRoomIds = [], standbyRoom = None, now = 0, trace = [] \<rparr>"

definition startedWorld :: World where
  "startedWorld = newWorld\<lparr>client := Some ''https://matrix.papers.tech''\<rparr>"

text \<open>A digest table in which the nonce changes the closest server: with the empty nonce
  the server \<open>a\<close> is closest to the hash \<open>00\<close> of the own key, with the nonce \<open>0\<close> the
  server \<open>b\<close> is. And a client configured with those two servers and an empty icon
  url.\<close>

definition nonceTable :: "(string \<times> string) list" where
  "nonceTable = [(''a'', ''01''), (''b'', ''09''), (''a0'', ''09''), (''b0'', ''01'')]"

definition twoServerConfig :: Config where
  "twoServerConfig = newConfig ''dApp'' ''pk'' [''a'', ''b''] (Some []) (Some ''https://app'') False"

definition joinedWorld :: World where
  "joinedWorld = startedWorld\<lparr>peerRoomIds := [(''@00:relay'', ''!J'')]\<rparr>"

definition forbiddenWorld :: World where
  "forbiddenWorld =
     startedWorld\<lparr>peerRoomIds := [(''@00:relay'', ''!X''), (''@other'', ''!X''), (''@third'', ''!Z'')]\<rparr>"

definition demoPeer :: Pairing where
  "demoPeer =
     \<lparr> p2p_id = ''id-1'', p2p_type = ''p2p-pairing-request'', p2p_name = ''peer'',
       p2p_version = Some ''2'', p2p_publicKey = ''aa'', p2p_relayServer = Some ''relay'',
       p2p_icon = None, p2p_appUrl = None \<rparr>"

section \<open>Relay selection: facts about the reduction\<close>

lemma hexDigits_value:
  "(\<forall>c \<in> set h. hexDigit c \<noteq> None) \<Longrightarrow>
   hexDigits acc h = Some (foldl (\<lambda>acc c. 16 * acc + (case hexDigit c of None \<Rightarrow> 0 | Some d \<Rightarrow> d)) acc h)"
  by (induction h arbitrary: acc) auto

lemma map_of_zip_notin: "c \<notin> set xs \<Longrightarrow> map_of (zip xs ys) c = None"
  by (auto simp: map_of_eq_None_iff dest: set_zip_leftD)

lemma upper_letters_range:
  "\<forall>u \<in> set ''ABCDEFGHIJKLMNOPQRSTUVWXYZ''. 65 \<le> (of_char u :: nat) \<and> (of_char u :: nat) \<le> 90"
  by simp

lemma hexDigit_toLowerChar: "hexDigit c \<noteq> None \<Longrightarrow> toLowerChar c = c"
proof -
  assume "hexDigit c \<noteq> None"
  then have "\<not> (65 \<le> (of_char c :: nat) \<and> (of_char c :: nat) \<le> 90)"
    by (auto simp: hexDigit_def Let_def split: if_splits)
  with upper_letters_range have "c \<notin> set ''ABCDEFGHIJKLMNOPQRSTUVWXYZ''" by blast
  then have "map_of (zip ''ABCDEFGHIJKLMNOPQRSTUVWXYZ'' ''abcdefghijklmnopqrstuvwxyz'') c = None"
    by (rule map_of_zip_notin)
  then show ?thesis
    unfolding toLowerChar_def by (simp only: option.case)
qed

lemma BigNumber_aB: "BigNumber ''aB'' = None"
  by (simp add: BigNumber_def hexDigit_def toUpperCase_def toUpperChar_def toLowerCase_def
      toLowerChar_def)

lemma foldl_digits_lower:
  "(\<forall>c \<in> set h. hexDigit c \<noteq> None) \<Longrightarrow>
   foldl (\<lambda>acc c. 16 * acc + (case hexDigit c of None \<Rightarrow> 0 | Some d \<Rightarrow> d)) acc h
     = foldl (\<lambda>acc c. 16 * acc + digitValue c) acc h"
  by (induction h arbitrary: acc) (simp_all add: digitValue_def hexDigit_toLowerChar)

lemma foldl_digits_map:
  "foldl (\<lambda>acc c. 16 * acc + (case hexDigit c of None \<Rightarrow> 0 | Some d \<Rightarrow> d)) acc (map toLowerChar h)
     = foldl (\<lambda>acc c. 16 * acc + digitValue c) acc h"
  by (induction h arbitrary: acc) (simp_all add: digitValue_def)

lemma hexDigits_Some_lowerHex: "hexDigits acc h = Some n \<Longrightarrow> lowerHex h"
  by (induction h arbitrary: acc) (auto simp: lowerHex_def split: option.splits)

lemma BigNumber_lowerHex:
  assumes "h \<noteq> []" "lowerHex h"
  shows "BigNumber h = Some (int (hexValue h))"
  using assms
  by (simp add: BigNumber_def lowerHex_def hexDigits_value foldl_digits_lower hexValue_def)

lemma BigNumber_upperHex:
  assumes "h \<noteq> []" "h = toUpperCase h" "lowerHex (toLowerCase h)"
  shows "BigNumber h = Some (int (hexValue h))"
proof (cases "hexDigits 0 h")
  case (Some n)
  from hexDigits_Some_lowerHex [OF this] assms(1) show ?thesis by (rule BigNumber_lowerHex [rotated])
next
  case None
  have "hexDigits 0 (toLowerCase h) = Some (hexValue h)"
    using assms(3)
    by (simp add: lowerHex_def hexDigits_value hexValue_def)
      (simp add: toLowerCase_def foldl_digits_map)
  with None assms(1) assms(2) [symmetric] show ?thesis by (simp add: BigNumber_def)
qed

lemma BigNumber_isHex: "isHex h \<Longrightarrow> BigNumber h = Some (int (hexValue h))"
  by (auto simp: isHex_def BigNumber_lowerHex BigNumber_upperHex)

lemma difference_isHex:
  "isHex a \<Longrightarrow> isHex b \<Longrightarrow> getAbsoluteBigIntDifference a b = Some (distance a b)"
  by (simp add: getAbsoluteBigIntDifference_def absoluteValue_def minus_def distance_def
      BigNumber_isHex)

lemma relayStep_isHex:
  assumes "isHex hash" "isHex (getHexHash ext (p @ nonce))" "isHex (getHexHash ext (c @ nonce))"
  shows "relayStep ext hash nonce p c =
         (if distance hash (getHexHash ext (p @ nonce)) < distance hash (getHexHash ext (c @ nonce))
          then p else c)"
  using assms by (simp add: relayStep_def Let_def difference_isHex isLessThan_def)

text \<open>The reduction returns the last element of least distance among the start value
  and the list.\<close>

lemma foldl_relayStep_last_min:
  assumes "isHex hash" "\<forall>s \<in> set (a # xs). isHex (getHexHash ext (s @ nonce))"
  shows "\<exists>ys zs. a # xs = ys @ foldl (relayStep ext hash nonce) a xs # zs
           \<and> (\<forall>y \<in> set ys. distance hash (getHexHash ext (foldl (relayStep ext hash nonce) a xs @ nonce))
                 \<le> distance hash (getHexHash ext (y @ nonce)))
           \<and> (\<forall>z \<in> set zs. distance hash (getHexHash ext (foldl (relayStep ext hash nonce) a xs @ nonce))
                 < distance hash (getHexHash ext (z @ nonce)))"
  using assms(2)
proof (induction xs rule: rev_induct)
  case Nil
  show ?case by (rule exI [of _ "[]"], rule exI [of _ "[]"]) simp
next
  case (snoc x xs)
  let ?f = "relayStep ext hash nonce"
  let ?d = "\<lambda>s. distance hash (getHexHash ext (s @ nonce))"
  let ?r = "foldl ?f a xs"
  from snoc.prems have hexs: "\<forall>s \<in> set (a # xs). isHex (getHexHash ext (s @ nonce))"
    and hexx: "isHex (getHexHash ext (x @ nonce))" by simp_all
  from snoc.IH [OF hexs] obtain ys zs where
    split: "a # xs = ys @ ?r # zs" and
    before: "\<forall>y \<in> set ys. ?d ?r \<le> ?d y" and
    after: "\<forall>z \<in> set zs. ?d ?r < ?d z" by blast
  have "?r \<in> set (a # xs)" by (subst split) simp
  with hexs have hexr: "isHex (getHexHash ext (?r @ nonce))" by blast
  have step: "foldl ?f a (xs @ [x]) = (if ?d ?r < ?d x then ?r else x)"
    by (simp add: relayStep_isHex [OF assms(1) hexr hexx])
  show ?case
  proof (cases "?d ?r < ?d x")
    case True
    have "a # xs @ [x] = ys @ ?r # (zs @ [x])" using split by simp
    moreover have "\<forall>z \<in> set (zs @ [x]). ?d ?r < ?d z" using after True by simp
    ultimately show ?thesis using before step True by metis
  next
    case False
    have all: "\<forall>y \<in> set (a # xs). ?d x \<le> ?d y"
    proof
      fix y assume "y \<in> set (a # xs)"
      then have "y \<in> set ys \<or> y = ?r \<or> y \<in> set zs" by (subst (asm) split) auto
      then have "?d ?r \<le> ?d y" using before after by fastforce
      with False show "?d x \<le> ?d y" by simp
    qed
    have "a # xs @ [x] = (a # xs) @ x # []" by simp
    moreover have "\<forall>z \<in> set ([]::string list). ?d x < ?d z" by simp
    ultimately show ?thesis using all step False by metis
  qed
qed

lemma getRelayServer_last_min:
  assumes "this_KNOWN_RELAY_SERVERS cfg \<noteq> []" "isHex hash"
    "\<forall>s \<in> set (this_KNOWN_RELAY_SERVERS cfg). isHex (getHexHash ext (s @ nonce))"
  shows "\<exists>r ys zs. getRelayServer ext cfg (Some hash) nonce = Some r
           \<and> this_KNOWN_RELAY_SERVERS cfg = ys @ r # zs
           \<and> (\<forall>y \<in> set ys. distance hash (getHexHash ext (r @ nonce)) \<le> distance hash (getHexHash ext (y @ nonce)))
           \<and> (\<forall>z \<in> set zs. distance hash (getHexHash ext (r @ nonce)) < distance hash (getHexHash ext (z @ nonce)))"
proof -
  define servers where "servers = this_KNOWN_RELAY_SERVERS cfg"
  from assms(1) obtain s0 rest where sv: "servers = s0 # rest"
    unfolding servers_def by (cases "this_KNOWN_RELAY_SERVERS cfg") auto
  let ?d = "\<lambda>s. distance hash (getHexHash ext (s @ nonce))"
  define r where "r = foldl (relayStep ext hash nonce) s0 servers"
  have ne: "hash \<noteq> []" using assms(2) by (simp add: isHex_def)
  have res: "getRelayServer ext cfg (Some hash) nonce = Some r"
    using ne sv by (simp add: getRelayServer_def effectiveHash_def r_def servers_def [symmetric])
  have "\<forall>s \<in> set (s0 # servers). isHex (getHexHash ext (s @ nonce))"
    using assms(3) sv by (simp add: servers_def [symmetric])
  from foldl_relayStep_last_min [OF assms(2) this] obtain ys zs where
    split: "s0 # servers = ys @ r # zs" and
    before: "\<forall>y \<in> set ys. ?d r \<le> ?d y" and
    after: "\<forall>z \<in> set zs. ?d r < ?d z" unfolding r_def by blast
  have "ys \<noteq> []"
  proof
    assume "ys = []"
    with split have "r = s0" and "zs = servers" by simp_all
    then have "s0 \<in> set zs" and "?d r = ?d s0" using sv by simp_all
    with after show False by fastforce
  qed
  then obtain ys' where ys: "ys = s0 # ys'" using split by (cases ys) auto
  with split have "servers = ys' @ r # zs" by simp
  moreover have "\<forall>y \<in> set ys'. ?d r \<le> ?d y" using before ys by simp
  ultimately show ?thesis using res after unfolding servers_def by blast
qed

lemma getRelayServer_singleton:
  "this_KNOWN_RELAY_SERVERS cfg = [s] \<Longrightarrow> getRelayServer ext cfg publicKeyHash nonce = Some s"
  by (simp add: getRelayServer_def relayStep_def Let_def)

lemma demoConfig_servers:
  "this_KNOWN_RELAY_SERVERS (demoConfig (x # xs)) = x # xs"
  by (simp add: demoConfig_def newConfig_def)

text \<open>When the hash is not a number for BigNumber, every comparison is false and the
  reduction ends on the last server.\<close>

lemma foldl_relayStep_NaN:
  "BigNumber hash = None \<Longrightarrow> foldl (relayStep ext hash nonce) a xs = last (a # xs)"
  by (induction xs arbitrary: a)
    (simp_all add: relayStep_def Let_def getAbsoluteBigIntDifference_def minus_def
      absoluteValue_def isLessThan_def)

lemma getRelayServer_NaN_last:
  assumes "this_KNOWN_RELAY_SERVERS cfg \<noteq> []" "hash \<noteq> []" "BigNumber hash = None"
  shows "getRelayServer ext cfg (Some hash) nonce = Some (last (this_KNOWN_RELAY_SERVERS cfg))"
proof -
  from assms(1) obtain s0 rest where sv: "this_KNOWN_RELAY_SERVERS cfg = s0 # rest"
    by (cases "this_KNOWN_RELAY_SERVERS cfg") auto
  have "foldl (relayStep ext hash nonce) s0 (s0 # rest) = last (s0 # s0 # rest)"
    by (rule foldl_relayStep_NaN [OF assms(3)])
  then show ?thesis using assms(2) by (simp add: getRelayServer_def effectiveHash_def sv)
qed

section \<open>Relay selection: the claims\<close>

text \<open>
  C1 (as stated: for every hex hash string the server returned minimizes the absolute
  difference). The hash \<open>aB\<close> is a hex string, and denotes 171. It mixes the two letter
  cases, so BigNumber reads it as \<^verbatim>\<open>NaN\<close>, every comparison of the reduction is false, and
  the last server is returned: here \<open>b\<close>, whose digest denotes 0, although the digest of
  \<open>a\<close> denotes 171, at distance 0 from the hash.
\<close>

theorem getRelayServer_mixed_case_counterexample:
  "this_KNOWN_RELAY_SERVERS (demoConfig [''a'', ''b'']) = [''a'', ''b'']
   \<and> hexValue ''aB'' = 171
   \<and> hexValue (getHexHash (tableExt mixedTable) (''a'' @ ''0'')) = 171
   \<and> hexValue (getHexHash (tableExt mixedTable) (''b'' @ ''0'')) = 0
   \<and> BigNumber ''aB'' = None
   \<and> getAbsoluteBigIntDifference ''aB'' (getHexHash (tableExt mixedTable) (''a'' @ ''0'')) = None
   \<and> getRelayServer (tableExt mixedTable) (demoConfig [''a'', ''b'']) (Some ''aB'') ''0'' = Some ''b''"
proof -
  have "hexValue ''aB'' = 171"
    by (simp add: hexValue_def digitValue_def hexDigit_def toLowerChar_def)
  moreover have "hexValue (getHexHash (tableExt mixedTable) (''a'' @ ''0'')) = 171
      \<and> hexValue (getHexHash (tableExt mixedTable) (''b'' @ ''0'')) = 0"
    by (simp add: hexValue_def digitValue_def hexDigit_def toLowerChar_def tableExt_def
        tableHash_def mixedTable_def)
  moreover have "getAbsoluteBigIntDifference ''aB'' (getHexHash (tableExt mixedTable) (''a'' @ ''0'')) = None"
    by (simp add: getAbsoluteBigIntDifference_def BigNumber_aB minus_def absoluteValue_def)
  moreover have "getRelayServer (tableExt mixedTable) (demoConfig [''a'', ''b'']) (Some ''aB'') ''0''
      = Some ''b''"
    by (simp add: getRelayServer_NaN_last BigNumber_aB demoConfig_servers)
  ultimately show ?thesis by (simp add: BigNumber_aB demoConfig_servers)
qed

text \<open>
  C1 (amended). For a non-empty server list, a hash that is a hex string in one letter
  case (all lower case, or all upper case) and any nonce, the digests being such strings
  too, \<open>getRelayServer\<close> returns a server of the list whose digest has the least absolute
  difference to the hash, both read as nonnegative integers, and that difference is what
  \<open>getAbsoluteBigIntDifference\<close> computes. The result is a function of the server list,
  the hash and the nonce (and of the digest function), so two calls with the same ones
  return the same server; and on the list \<open>[matrix.papers.tech]\<close>, which is also the list
  of a client constructed with no node, every hash and nonce yield \<open>matrix.papers.tech\<close>.
\<close>

theorem getRelayServer_minimizes:
  assumes "this_KNOWN_RELAY_SERVERS cfg \<noteq> []" "isHex hash"
    "\<forall>s \<in> set (this_KNOWN_RELAY_SERVERS cfg). isHex (getHexHash ext (s @ nonce))"
  shows "(\<exists>r. getRelayServer ext cfg (Some hash) nonce = Some r
            \<and> r \<in> set (this_KNOWN_RELAY_SERVERS cfg)
            \<and> (\<forall>s \<in> set (this_KNOWN_RELAY_SERVERS cfg).
                  getAbsoluteBigIntDifference hash (getHexHash ext (s @ nonce))
                    = Some \<bar>int (hexValue hash) - int (hexValue (getHexHash ext (s @ nonce)))\<bar>
                  \<and> \<bar>int (hexValue hash) - int (hexValue (getHexHash ext (r @ nonce)))\<bar>
                    \<le> \<bar>int (hexValue hash) - int (hexValue (getHexHash ext (s @ nonce)))\<bar>))
         \<and> getRelayServer ext (cfg\<lparr>this_KNOWN_RELAY_SERVERS := [''matrix.papers.tech'']\<rparr>)
               anyHash nonce = Some ''matrix.papers.tech''
         \<and> getRelayServer ext (newConfig n pk [] icon url wallet) anyHash nonce
               = Some ''matrix.papers.tech''"
proof -
  from getRelayServer_last_min [OF assms] obtain r ys zs where
    res: "getRelayServer ext cfg (Some hash) nonce = Some r" and
    split: "this_KNOWN_RELAY_SERVERS cfg = ys @ r # zs" and
    before: "\<forall>y \<in> set ys. distance hash (getHexHash ext (r @ nonce)) \<le> distance hash (getHexHash ext (y @ nonce))" and
    after: "\<forall>z \<in> set zs. distance hash (getHexHash ext (r @ nonce)) < distance hash (getHexHash ext (z @ nonce))"
    by blast
  have mem: "r \<in> set (this_KNOWN_RELAY_SERVERS cfg)" by (subst split) simp
  have least: "distance hash (getHexHash ext (r @ nonce)) \<le> distance hash (getHexHash ext (s @ nonce))"
    if "s \<in> set (this_KNOWN_RELAY_SERVERS cfg)" for s
  proof -
    from that have "s \<in> set ys \<or> s = r \<or> s \<in> set zs" by (subst (asm) split) auto
    then show ?thesis using before after by fastforce
  qed
  have code: "getAbsoluteBigIntDifference hash (getHexHash ext (s @ nonce))
                = Some (distance hash (getHexHash ext (s @ nonce)))"
    if "s \<in> set (this_KNOWN_RELAY_SERVERS cfg)" for s
    using that assms(2,3) by (simp add: difference_isHex)
  have single: "getRelayServer ext (cfg\<lparr>this_KNOWN_RELAY_SERVERS := [''matrix.papers.tech'']\<rparr>)
                  anyHash nonce = Some ''matrix.papers.tech''"
    by (rule getRelayServer_singleton) simp
  have dflt: "getRelayServer ext (newConfig n pk [] icon url wallet) anyHash nonce
                  = Some ''matrix.papers.tech''"
    by (rule getRelayServer_singleton) (simp add: newConfig_def KNOWN_RELAY_SERVERS_def)
  from res mem least code single dflt show ?thesis
    unfolding distance_def by blast
qed

theorem getRelayServer_minimizes_witness:
  "this_KNOWN_RELAY_SERVERS (demoConfig [''a'', ''b'', ''c'']) \<noteq> [] \<and> isHex ''0d''
   \<and> isHex (getHexHash (tableExt nearTable) ''a0'')
   \<and> isHex (getHexHash (tableExt nearTable) ''b0'')
   \<and> isHex (getHexHash (tableExt nearTable) ''c0'')
   \<and> getRelayServer (tableExt nearTable) (demoConfig [''a'', ''b'', ''c'']) (Some ''0d'') ''0''
       = Some ''b''
   \<and> getAbsoluteBigIntDifference ''0d'' (getHexHash (tableExt nearTable) ''b0'') = Some 1"
proof -
  let ?cfg = "demoConfig [''a'', ''b'', ''c'']"
  let ?ext = "tableExt nearTable"
  have sv: "this_KNOWN_RELAY_SERVERS ?cfg = [''a'', ''b'', ''c'']" by (rule demoConfig_servers)
  have h1: "this_KNOWN_RELAY_SERVERS ?cfg \<noteq> []" by (simp add: sv)
  have h2: "isHex ''0d''" by code_simp
  have h3: "\<forall>s \<in> set (this_KNOWN_RELAY_SERVERS ?cfg). isHex (getHexHash ?ext (s @ ''0''))"
    unfolding sv by code_simp
  from getRelayServer_minimizes [OF h1 h2 h3, of None "''n''" "''pk''" None None False]
  obtain r where
    r: "getRelayServer ?ext ?cfg (Some ''0d'') ''0'' = Some r"
    and d: "\<forall>s \<in> set (this_KNOWN_RELAY_SERVERS ?cfg).
             getAbsoluteBigIntDifference ''0d'' (getHexHash ?ext (s @ ''0''))
               = Some \<bar>int (hexValue ''0d'') - int (hexValue (getHexHash ?ext (s @ ''0'')))\<bar>
             \<and> \<bar>int (hexValue ''0d'') - int (hexValue (getHexHash ?ext (r @ ''0'')))\<bar>
               \<le> \<bar>int (hexValue ''0d'') - int (hexValue (getHexHash ?ext (s @ ''0'')))\<bar>"
    by blast
  have "getRelayServer ?ext ?cfg (Some ''0d'') ''0'' = Some ''b''"
    by code_simp
  with r have rb: "r = ''b''" by simp
  have "''b'' \<in> set (this_KNOWN_RELAY_SERVERS ?cfg)" by (simp add: sv)
  with d have "getAbsoluteBigIntDifference ''0d'' (getHexHash ?ext (''b'' @ ''0''))
               = Some \<bar>int (hexValue ''0d'') - int (hexValue (getHexHash ?ext (''b'' @ ''0'')))\<bar>"
    by blast
  moreover have "getHexHash ?ext (''b'' @ ''0'') = ''0C''"
    by (simp add: tableHash_def tableExt_def nearTable_def)
  moreover have "hexValue ''0d'' = 13" "hexValue ''0C'' = 12"
    by (simp_all add: hexValue_def digitValue_def hexDigit_def toLowerChar_def)
  ultimately have one: "getAbsoluteBigIntDifference ''0d'' (getHexHash ?ext ''b0'') = Some 1"
    by simp
  have three: "isHex (getHexHash ?ext ''a0'') \<and> isHex (getHexHash ?ext ''b0'')
      \<and> isHex (getHexHash ?ext ''c0'')"
    using h3 by (simp add: sv)
  from h1 h2 r rb one three show ?thesis by simp
qed

text \<open>
  C2 (as stated: of two servers at the same least distance the earlier one is returned).
  With the servers \<open>a\<close>, \<open>b\<close> whose digests \<open>0c\<close> and \<open>0e\<close> are both at distance 1
  from the hash \<open>0d\<close>, the reduction returns \<open>b\<close>: on equality \<^verbatim>\<open>isLessThan\<close> is false
  and the callback returns the current element.
\<close>

theorem getRelayServer_tie_counterexample:
  "getAbsoluteBigIntDifference ''0d'' (getHexHash (tableExt tieTable) (''a'' @ ''0'')) = Some 1
   \<and> getAbsoluteBigIntDifference ''0d'' (getHexHash (tableExt tieTable) (''b'' @ ''0'')) = Some 1
   \<and> this_KNOWN_RELAY_SERVERS (demoConfig [''a'', ''b'']) = [''a'', ''b'']
   \<and> getRelayServer (tableExt tieTable) (demoConfig [''a'', ''b'']) (Some ''0d'') ''0'' = Some ''b''
   \<and> getRelayServer (tableExt tieTable) (demoConfig [''a'', ''b'']) (Some ''0d'') ''0'' \<noteq> Some ''a''"
  by code_simp

text \<open>
  C2 (amended). For a hash and digests that are hex strings in one letter case, the server
  returned is the last one of least distance: every server before it in the list is at
  least as far from the hash, and every server after it is strictly farther. Of two
  servers at the same least distance the later one is returned.
\<close>

theorem getRelayServer_tie_latest:
  assumes "this_KNOWN_RELAY_SERVERS cfg \<noteq> []" "isHex hash"
    "\<forall>s \<in> set (this_KNOWN_RELAY_SERVERS cfg). isHex (getHexHash ext (s @ nonce))"
  shows "\<exists>r ys zs. getRelayServer ext cfg (Some hash) nonce = Some r
           \<and> this_KNOWN_RELAY_SERVERS cfg = ys @ r # zs
           \<and> (\<forall>y \<in> set ys. distance hash (getHexHash ext (r @ nonce)) \<le> distance hash (getHexHash ext (y @ nonce)))
           \<and> (\<forall>z \<in> set zs. distance hash (getHexHash ext (r @ nonce)) < distance hash (getHexHash ext (z @ nonce)))"
  using assms by (rule getRelayServer_last_min)

theorem getRelayServer_tie_latest_witness:
  "this_KNOWN_RELAY_SERVERS (demoConfig [''a'', ''b'']) \<noteq> [] \<and> isHex ''0d''
   \<and> isHex (getHexHash (tableExt tieTable) ''a0'') \<and> isHex (getHexHash (tableExt tieTable) ''b0'')
   \<and> (\<exists>r ys zs. getRelayServer (tableExt tieTable) (demoConfig [''a'', ''b'']) (Some ''0d'') ''0'' = Some r
           \<and> this_KNOWN_RELAY_SERVERS (demoConfig [''a'', ''b'']) = ys @ r # zs
           \<and> (\<forall>y \<in> set ys. distance ''0d'' (getHexHash (tableExt tieTable) (r @ ''0''))
                 \<le> distance ''0d'' (getHexHash (tableExt tieTable) (y @ ''0'')))
           \<and> (\<forall>z \<in> set zs. distance ''0d'' (getHexHash (tableExt tieTable) (r @ ''0''))
                 < distance ''0d'' (getHexHash (tableExt tieTable) (z @ ''0''))))"
proof -
  let ?cfg = "demoConfig [''a'', ''b'']"
  let ?ext = "tableExt tieTable"
  have sv: "this_KNOWN_RELAY_SERVERS ?cfg = [''a'', ''b'']" by (rule demoConfig_servers)
  have h1: "this_KNOWN_RELAY_SERVERS ?cfg \<noteq> []" by (simp add: sv)
  have h2: "isHex ''0d''" by code_simp
  have h3: "\<forall>s \<in> set (this_KNOWN_RELAY_SERVERS ?cfg). isHex (getHexHash ?ext (s @ ''0''))"
    unfolding sv by code_simp
  have h4: "isHex (getHexHash ?ext ''a0'') \<and> isHex (getHexHash ?ext ''b0'')"
    using h3 by (simp add: sv)
  from getRelayServer_tie_latest [OF h1 h2 h3] h1 h2 h4 show ?thesis by blast
qed

section \<open>The state store: the claims\<close>

lemma filter_if_single:
  "filter P (if c then [x] else []) = (if c \<and> P x then [x] else [])"
  by (cases c) simp_all

lemma updateStorage_None_iff:
  "(updateStorage st u = None) = (\<not> (truthyString (u_syncToken u) \<or> truthyRooms (u_rooms u)))"
  by (simp add: updateStorage_def entries_def PRESERVED_FIELDS_def filter_if_single
      truthyString_def truthyRooms_def split: option.splits)

lemma updateStorage_Some:
  "updateStorage st u = Some blob \<Longrightarrow>
   blob = emptyPartial\<lparr> u_syncToken := syncToken st,
                         u_rooms := Some (RoomRecord (map (\<lambda>(k, room). (k, room\<lparr>messages := []\<rparr>)) (rooms st))) \<rparr>"
  by (simp add: updateStorage_def Let_def prepareData_def filteredState_def jsonRoundTrip_def
      clearMessages_def split: if_splits)

lemma snd_set_update:
  "snd ` set (AList.update k v al) \<subseteq> insert v (snd ` set al)"
  by (induction al) auto

lemma snd_set_foldl_update:
  "snd ` set (foldl (\<lambda>merged r. AList.update (f r) (g r) merged) init xs)
     \<subseteq> snd ` set init \<union> g ` set xs"
proof (induction xs arbitrary: init)
  case Nil
  show ?case by simp
next
  case (Cons x xs)
  have "snd ` set (foldl (\<lambda>merged r. AList.update (f r) (g r) merged) (AList.update (f x) (g x) init) xs)
          \<subseteq> snd ` set (AList.update (f x) (g x) init) \<union> g ` set xs"
    by (rule Cons.IH)
  also have "\<dots> \<subseteq> insert (g x) (snd ` set init) \<union> g ` set xs"
    using snd_set_update [of "f x" "g x" init] by blast
  finally show ?case by auto
qed

lemma rehydrated_rooms_cleared:
  assumes "updateStorage st u = Some blob" "(k, room) \<in> set (rooms (initFromStorage (Some blob)))"
  shows "messages room = []"
proof -
  let ?cleared = "map (\<lambda>(k, room). (k, room\<lparr>messages := []\<rparr>)) (rooms st)"
  have blob: "u_rooms blob = Some (RoomRecord ?cleared)"
    using updateStorage_Some [OF assms(1)] by (simp add: emptyPartial_def)
  have "rooms (initFromStorage (Some blob))
          = foldl (\<lambda>merged r. AList.update (room_id r) (merge r None) merged) [] (map snd ?cleared)"
    by (simp add: initFromStorage_def setState_def mergeRooms_def blob objectValues_def
        initialState_def)
  then have "snd ` set (rooms (initFromStorage (Some blob)))
               \<subseteq> (\<lambda>r. merge r None) ` set (map snd ?cleared)"
    using snd_set_foldl_update [of room_id "\<lambda>r. merge r None" "[]" "map snd ?cleared"] by simp
  moreover have "room \<in> snd ` set (rooms (initFromStorage (Some blob)))"
    using assms(2) by force
  ultimately have "room \<in> (\<lambda>r. merge r None) ` set (map snd ?cleared)" by blast
  then show ?thesis by (auto simp: merge_def)
qed

subsection \<open>setState keeps a field on a falsy value\<close>

text \<open>
  C9. In \<open>update\<close> (and in \<open>setState\<close>, which it calls), a field of the partial state
  whose value is falsy (\<^verbatim>\<open>false\<close>, \<^verbatim>\<open>0\<close>, the empty string, \<^verbatim>\<open>undefined\<close>) leaves the
  field of the state as it was. So \<open>isRunning\<close> never goes from true to false, and
  \<open>txnNo\<close> and \<open>pollingRetries\<close> never go back to 0, whatever the update.
\<close>

theorem update_falsy_keeps_field:
  "(\<not> truthyBool (u_isRunning u) \<longrightarrow> isRunning (state (update store u)) = isRunning (state store))
   \<and> (\<not> truthyString (u_userId u) \<longrightarrow> userId (state (update store u)) = userId (state store))
   \<and> (\<not> truthyString (u_deviceId u) \<longrightarrow> deviceId (state (update store u)) = deviceId (state store))
   \<and> (\<not> truthyNumber (u_txnNo u) \<longrightarrow> txnNo (state (update store u)) = txnNo (state store))
   \<and> (\<not> truthyString (u_accessToken u) \<longrightarrow> accessToken (state (update store u)) = accessToken (state store))
   \<and> (\<not> truthyString (u_syncToken u) \<longrightarrow> syncToken (state (update store u)) = syncToken (state store))
   \<and> (\<not> truthyNumber (u_pollingTimeout u) \<longrightarrow> pollingTimeout (state (update store u)) = pollingTimeout (state store))
   \<and> (\<not> truthyNumber (u_pollingRetries u) \<longrightarrow> pollingRetries (state (update store u)) = pollingRetries (state store))
   \<and> (\<not> truthyRooms (u_rooms u) \<longrightarrow> rooms (state (update store u)) = rooms (state store))
   \<and> state (update store u) = setState (state store) u
   \<and> (isRunning (state store) \<longrightarrow> isRunning (state (update store u)))
   \<and> (txnNo (state store) \<noteq> 0 \<longrightarrow> txnNo (state (update store u)) \<noteq> 0)
   \<and> (pollingRetries (state store) \<noteq> 0 \<longrightarrow> pollingRetries (state (update store u)) \<noteq> 0)"
  by (simp add: update_def Let_def setState_def orBool_def orString_def orNumber_def
      orNumberOpt_def truthyNumber_def truthyRooms_def mergeRooms_def split: option.splits)

theorem update_falsy_keeps_field_witness:
  "state (update demoStore falsyUpdate) = state demoStore
   \<and> isRunning (state (update demoStore falsyUpdate))
   \<and> txnNo (state (update demoStore falsyUpdate)) = 5
   \<and> pollingRetries (state (update demoStore falsyUpdate)) = 2"
proof -
  have falsy: "\<not> truthyBool (u_isRunning falsyUpdate)" "\<not> truthyString (u_userId falsyUpdate)"
    "\<not> truthyString (u_deviceId falsyUpdate)" "\<not> truthyNumber (u_txnNo falsyUpdate)"
    "\<not> truthyString (u_accessToken falsyUpdate)" "\<not> truthyString (u_syncToken falsyUpdate)"
    "\<not> truthyNumber (u_pollingTimeout falsyUpdate)" "\<not> truthyNumber (u_pollingRetries falsyUpdate)"
    "\<not> truthyRooms (u_rooms falsyUpdate)"
    by (simp_all add: falsyUpdate_def truthyBool_def truthyString_def truthyNumber_def truthyRooms_def)
  have old: "isRunning (state demoStore)" "txnNo (state demoStore) = 5"
    "pollingRetries (state demoStore) = 2"
    by (simp_all add: demoStore_def)
  from update_falsy_keeps_field [of falsyUpdate demoStore] falsy
  have "isRunning (state (update demoStore falsyUpdate)) = isRunning (state demoStore)"
    "userId (state (update demoStore falsyUpdate)) = userId (state demoStore)"
    "deviceId (state (update demoStore falsyUpdate)) = deviceId (state demoStore)"
    "txnNo (state (update demoStore falsyUpdate)) = txnNo (state demoStore)"
    "accessToken (state (update demoStore falsyUpdate)) = accessToken (state demoStore)"
    "syncToken (state (update demoStore falsyUpdate)) = syncToken (state demoStore)"
    "pollingTimeout (state (update demoStore falsyUpdate)) = pollingTimeout (state demoStore)"
    "pollingRetries (state (update demoStore falsyUpdate)) = pollingRetries (state demoStore)"
    "rooms (state (update demoStore falsyUpdate)) = rooms (state demoStore)"
    by blast+
  then show ?thesis using old by (simp add: MatrixState.equality)
qed

subsection \<open>What is written to storage\<close>

text \<open>
  C5. \<open>updateStorage\<close> writes if and only if the update carries a truthy \<open>syncToken\<close>
  or a truthy \<open>rooms\<close>. What it writes holds the sync token and the rooms of the state
  and no other field, so a store hydrated from it has every other field at its initial
  value. \<open>update\<close> leaves the storage as it was when \<open>updateStorage\<close> does not write.
\<close>

theorem updateStorage_preserved_fields:
  "(updateStorage st u \<noteq> None) = (truthyString (u_syncToken u) \<or> truthyRooms (u_rooms u))
   \<and> (\<forall>blob. updateStorage st u = Some blob \<longrightarrow>
          u_isRunning blob = None \<and> u_userId blob = None \<and> u_deviceId blob = None
          \<and> u_txnNo blob = None \<and> u_accessToken blob = None \<and> u_pollingTimeout blob = None
          \<and> u_pollingRetries blob = None
          \<and> u_syncToken blob = syncToken st
          \<and> (\<exists>rs. u_rooms blob = Some (RoomRecord rs) \<and> map fst rs = map fst (rooms st))
          \<and> isRunning (initFromStorage (Some blob)) = isRunning initialState
          \<and> userId (initFromStorage (Some blob)) = None
          \<and> deviceId (initFromStorage (Some blob)) = None
          \<and> txnNo (initFromStorage (Some blob)) = 0
          \<and> accessToken (initFromStorage (Some blob)) = None
          \<and> pollingTimeout (initFromStorage (Some blob)) = None
          \<and> pollingRetries (initFromStorage (Some blob)) = 0)
   \<and> storage (update store u)
       = (if truthyString (u_syncToken u) \<or> truthyRooms (u_rooms u)
          then updateStorage (state (update store u)) u
          else storage store)"
proof -
  have iff: "(updateStorage st' u \<noteq> None) = (truthyString (u_syncToken u) \<or> truthyRooms (u_rooms u))"
    for st'
    by (simp add: updateStorage_None_iff)
  have fields: "u_isRunning blob = None \<and> u_userId blob = None \<and> u_deviceId blob = None
          \<and> u_txnNo blob = None \<and> u_accessToken blob = None \<and> u_pollingTimeout blob = None
          \<and> u_pollingRetries blob = None
          \<and> u_syncToken blob = syncToken st
          \<and> (\<exists>rs. u_rooms blob = Some (RoomRecord rs) \<and> map fst rs = map fst (rooms st))
          \<and> isRunning (initFromStorage (Some blob)) = isRunning initialState
          \<and> userId (initFromStorage (Some blob)) = None
          \<and> deviceId (initFromStorage (Some blob)) = None
          \<and> txnNo (initFromStorage (Some blob)) = 0
          \<and> accessToken (initFromStorage (Some blob)) = None
          \<and> pollingTimeout (initFromStorage (Some blob)) = None
          \<and> pollingRetries (initFromStorage (Some blob)) = 0"
    if "updateStorage st u = Some blob" for blob
    unfolding updateStorage_Some [OF that]
    by (simp add: emptyPartial_def initFromStorage_def setState_def initialState_def
        orBool_def orString_def orNumber_def orNumberOpt_def truthyBool_def truthyString_def
        truthyNumber_def comp_def case_prod_unfold)
  have stor: "storage (update store u)
       = (if truthyString (u_syncToken u) \<or> truthyRooms (u_rooms u)
          then updateStorage (state (update store u)) u
          else storage store)"
    using iff [of "setState (state store) u"]
    by (auto simp: update_def Let_def split: option.splits)
  from iff [of st] fields stor show ?thesis by blast
qed

theorem updateStorage_preserved_fields_witness:
  "updateStorage (state (update demoStore roomUpdate)) roomUpdate \<noteq> None
   \<and> updateStorage (state demoStore) falsyUpdate = None
   \<and> storage (update demoStore falsyUpdate) = None
   \<and> map_option u_syncToken (storage (update demoStore roomUpdate)) = Some (Some ''s1'')
   \<and> map_option u_accessToken (storage (update demoStore roomUpdate)) = Some None
   \<and> accessToken (initFromStorage (storage (update demoStore roomUpdate))) = None
   \<and> txnNo (initFromStorage (storage (update demoStore roomUpdate))) = 0"
proof -
  let ?st = "state (update demoStore roomUpdate)"
  have t: "truthyString (u_syncToken roomUpdate) \<or> truthyRooms (u_rooms roomUpdate)"
    by (simp add: roomUpdate_def truthyRooms_def)
  have f: "\<not> (truthyString (u_syncToken falsyUpdate) \<or> truthyRooms (u_rooms falsyUpdate))"
    by (simp add: falsyUpdate_def truthyRooms_def truthyString_def)
  note thm1 = updateStorage_preserved_fields [of ?st roomUpdate demoStore]
  note thm2 = updateStorage_preserved_fields [of "state demoStore" falsyUpdate demoStore]
  from thm1 t obtain blob where blob: "updateStorage ?st roomUpdate = Some blob" by auto
  from thm1 t blob have stor: "storage (update demoStore roomUpdate) = Some blob" by simp
  from thm1 blob have b: "u_accessToken blob = None" "u_syncToken blob = syncToken ?st"
    "accessToken (initFromStorage (Some blob)) = None" "txnNo (initFromStorage (Some blob)) = 0"
    by blast+
  have "syncToken ?st = Some ''s1''"
    by (simp add: update_def Let_def setState_def demoStore_def roomUpdate_def emptyPartial_def
        orString_def truthyString_def)
  moreover from thm2 f have "updateStorage (state demoStore) falsyUpdate = None"
    "storage (update demoStore falsyUpdate) = storage demoStore" by simp_all
  moreover have "storage demoStore = None" by (simp add: demoStore_def)
  ultimately show ?thesis using blob stor b by simp
qed

subsection \<open>Messages are not persisted\<close>

lemma clearMessagesAt_length: "length (clearMessagesAt h as) = length h"
  unfolding clearMessagesAt_def by (induction as arbitrary: h) simp_all

lemma clearMessagesAt_nth:
  "clearMessagesAt h as ! a
     = (if a \<in> set as \<and> a < length h then (h ! a)\<lparr>messages := []\<rparr> else h ! a)"
  unfolding clearMessagesAt_def
proof (induction as arbitrary: h)
  case Nil
  show ?case by simp
next
  case (Cons x as)
  show ?case
  proof (cases "x < length h")
    case True
    then show ?thesis
      by (simp add: Cons.IH [of "h[x := (h ! x)\<lparr>messages := []\<rparr>]"] nth_list_update)
  next
    case False
    then have same: "h[x := (h ! x)\<lparr>messages := []\<rparr>] = h" by (simp add: list_update_beyond)
    have "foldl (\<lambda>h' a. h'[a := (h' ! a)\<lparr>messages := []\<rparr>]) h (x # as) ! a
            = foldl (\<lambda>h' a. h'[a := (h' ! a)\<lparr>messages := []\<rparr>]) h as ! a"
      by (simp add: same)
    also have "\<dots> = (if a \<in> set as \<and> a < length h then (h ! a)\<lparr>messages := []\<rparr> else h ! a)"
      by (rule Cons.IH)
    finally show ?thesis using False by auto
  qed
qed

lemma prepareDataHeap_frame:
  assumes "a < length h"
  shows "snd (prepareDataHeap h hp) ! a = h ! a"
proof (cases "hp_rooms hp")
  case None
  then show ?thesis by (simp add: prepareDataHeap_def clearMessagesAt_def)
next
  case (Some rs)
  have addrs: "map snd (zip (map fst rs) [length h ..< length h + length rs])
                 = [length h ..< length h + length rs]"
    by simp
  show ?thesis
    using assms
    by (simp add: prepareDataHeap_def jsonCopy_def Some addrs clearMessagesAt_nth nth_append)
qed

lemma prepareDataHeap_refines:
  assumes "wellFormed h hp"
  shows "readBack (snd (prepareDataHeap h hp)) (fst (prepareDataHeap h hp))
           = prepareData (readBack h hp)"
proof (cases "hp_rooms hp")
  case None
  then show ?thesis
    by (simp add: prepareDataHeap_def clearMessagesAt_def readBack_def prepareData_def
        emptyPartial_def)
next
  case (Some rs)
  let ?n = "length h"
  let ?new = "[?n ..< ?n + length rs]"
  let ?h1 = "h @ map (\<lambda>(k, a). h ! a) rs"
  let ?h' = "clearMessagesAt ?h1 ?new"
  have addrs: "map snd (zip (map fst rs) ?new) = ?new" by simp
  have res: "prepareDataHeap h hp = (hp\<lparr>hp_rooms := Some (zip (map fst rs) ?new)\<rparr>, ?h')"
    by (simp add: prepareDataHeap_def jsonCopy_def Some addrs)
  have eq: "map (\<lambda>(k, a). (k, ?h' ! a)) (zip (map fst rs) ?new)
              = map (\<lambda>(k, room). (k, room\<lparr>messages := []\<rparr>)) (map (\<lambda>(k, a). (k, h ! a)) rs)"
  proof (rule nth_equalityI)
    show "length (map (\<lambda>(k, a). (k, ?h' ! a)) (zip (map fst rs) ?new))
            = length (map (\<lambda>(k, room). (k, room\<lparr>messages := []\<rparr>)) (map (\<lambda>(k, a). (k, h ! a)) rs))"
      by simp
  next
    fix i assume "i < length (map (\<lambda>(k, a). (k, ?h' ! a)) (zip (map fst rs) ?new))"
    then have i: "i < length rs" by simp
    have "?h' ! (?n + i) = (?h1 ! (?n + i))\<lparr>messages := []\<rparr>"
      using i by (simp add: clearMessagesAt_nth)
    also have "?h1 ! (?n + i) = (\<lambda>(k, a). h ! a) (rs ! i)"
      using i by (simp add: nth_append)
    finally show "map (\<lambda>(k, a). (k, ?h' ! a)) (zip (map fst rs) ?new) ! i
            = map (\<lambda>(k, room). (k, room\<lparr>messages := []\<rparr>)) (map (\<lambda>(k, a). (k, h ! a)) rs) ! i"
      using i by (simp add: case_prod_unfold)
  qed
  show ?thesis
    unfolding res
    by (simp add: readBack_def prepareData_def emptyPartial_def Some jsonRoundTrip_def
        clearMessages_def eq)
qed

lemma notifyListeners_newState:
  "call \<in> set (notifyListeners ls oldState newState stateChange) \<Longrightarrow>
   fst (snd (snd call)) = newState \<and> fst (snd call) = oldState"
  by (auto simp: notifyListeners_def split: option.splits)

text \<open>
  C6. When the update carries rooms, the value written to storage has every room's
  \<open>messages\<close> empty, and so has every room of a store hydrated from the storage. The
  state in memory is the merged state, which is also what every listener is called with;
  a room given alone in the update keeps its messages there. On objects, \<open>prepareData\<close>
  changes no object that existed before the call (it clears the rooms of its own copy),
  and what it returns denotes the value that \<open>prepareData\<close> computes.
\<close>

theorem update_does_not_persist_messages:
  assumes "u_rooms u \<noteq> None"
  shows "(\<exists>blob rs. storage (update store u) = Some blob
            \<and> u_rooms blob = Some (RoomRecord rs)
            \<and> map fst rs = map fst (rooms (state (update store u)))
            \<and> (\<forall>entry \<in> set rs. messages (snd entry) = []))
         \<and> (\<forall>entry \<in> set (rooms (state (newStore (storage (update store u))))).
               messages (snd entry) = [])
         \<and> state (update store u) = setState (state store) u
         \<and> (\<exists>calls. notified (update store u) = notified store @ calls
               \<and> (\<forall>call \<in> set calls. fst (snd (snd call)) = state (update store u)))
         \<and> (\<forall>r. u_rooms u = Some (RoomArray [r]) \<longrightarrow>
               (\<exists>room older. map_of (rooms (state (update store u))) (room_id r) = Some room
                  \<and> messages room = older @ messages r))
         \<and> (\<forall>h hp a. a < length h \<longrightarrow> snd (prepareDataHeap h hp) ! a = h ! a)
         \<and> (\<forall>h hp. wellFormed h hp \<longrightarrow>
               readBack (snd (prepareDataHeap h hp)) (fst (prepareDataHeap h hp))
                 = prepareData (readBack h hp))"
proof -
  let ?st = "setState (state store) u"
  have st: "state (update store u) = ?st" by (simp add: update_def Let_def)
  from assms have "updateStorage ?st u \<noteq> None"
    by (simp add: updateStorage_None_iff truthyRooms_def)
  then obtain blob where blob: "updateStorage ?st u = Some blob" by blast
  have stor: "storage (update store u) = Some blob"
    by (simp add: update_def Let_def blob)
  let ?rs = "map (\<lambda>(k, room). (k, room\<lparr>messages := []\<rparr>)) (rooms ?st)"
  have "u_rooms blob = Some (RoomRecord ?rs)"
    using updateStorage_Some [OF blob] by (simp add: emptyPartial_def)
  moreover have "map fst ?rs = map fst (rooms ?st)" by (simp add: comp_def case_prod_unfold)
  moreover have "\<forall>entry \<in> set ?rs. messages (snd entry) = []" by auto
  ultimately have written: "\<exists>blob rs. storage (update store u) = Some blob
            \<and> u_rooms blob = Some (RoomRecord rs)
            \<and> map fst rs = map fst (rooms (state (update store u)))
            \<and> (\<forall>entry \<in> set rs. messages (snd entry) = [])"
    using stor st by metis
  have reloaded: "\<forall>entry \<in> set (rooms (state (newStore (storage (update store u))))).
               messages (snd entry) = []"
  proof
    fix entry assume "entry \<in> set (rooms (state (newStore (storage (update store u)))))"
    then have "(fst entry, snd entry) \<in> set (rooms (initFromStorage (Some blob)))"
      by (simp add: newStore_def stor)
    from rehydrated_rooms_cleared [OF blob this] show "messages (snd entry) = []" .
  qed
  have calls: "\<exists>calls. notified (update store u) = notified store @ calls
               \<and> (\<forall>call \<in> set calls. fst (snd (snd call)) = state (update store u))"
  proof -
    have "notified (update store u)
            = notified store @ notifyListeners (onStateChangedListeners store) (state store) ?st u"
      by (simp add: update_def Let_def)
    moreover have "\<forall>call \<in> set (notifyListeners (onStateChangedListeners store) (state store) ?st u).
        fst (snd (snd call)) = state (update store u)"
      using notifyListeners_newState st by metis
    ultimately show ?thesis by blast
  qed
  have single: "\<exists>room older. map_of (rooms (state (update store u))) (room_id r) = Some room
                  \<and> messages room = older @ messages r"
    if "u_rooms u = Some (RoomArray [r])" for r
  proof -
    have "map_of (rooms ?st) (room_id r)
            = Some (merge r (map_of (rooms (state store)) (room_id r)))"
      by (simp add: setState_def mergeRooms_def that objectValues_def update_conv')
    moreover have "\<exists>older. messages (merge r p) = older @ messages r" for p
      by (cases p) (simp_all add: merge_def)
    ultimately show ?thesis using st by metis
  qed
  from written reloaded st calls single prepareDataHeap_frame prepareDataHeap_refines
  show ?thesis by blast
qed

theorem update_does_not_persist_messages_witness:
  "u_rooms roomUpdate \<noteq> None
   \<and> map_option (map messages) (map_option (map snd)
        (map_option rooms (map_option state (Some (update demoStore roomUpdate)))))
       = Some [[demoMessage, demoMessage]]
   \<and> map (\<lambda>entry. messages (snd entry)) (rooms (state (newStore (storage (update demoStore roomUpdate)))))
       = [[]]
   \<and> snd (prepareDataHeap demoHeap demoHeapPartial) ! 0 = demoRoom
   \<and> prepareData (readBack demoHeap demoHeapPartial)
       = emptyPartial\<lparr>u_syncToken := Some ''s1'',
                      u_rooms := Some (RoomRecord [(''!r'', demoRoom\<lparr>messages := []\<rparr>)])\<rparr>"
proof -
  have h: "u_rooms roomUpdate \<noteq> None" by (simp add: roomUpdate_def)
  note inst = update_does_not_persist_messages [OF h, of demoStore]
  have mem: "rooms (state (update demoStore roomUpdate))
               = [(''!r'', demoRoom\<lparr>messages := [demoMessage, demoMessage]\<rparr>)]"
    by (simp add: update_def Let_def setState_def mergeRooms_def roomUpdate_def emptyPartial_def
        objectValues_def demoStore_def demoRoom_def merge_def)
  from inst have all: "\<forall>entry \<in> set (rooms (state (newStore (storage (update demoStore roomUpdate))))).
               messages (snd entry) = []" by blast
  have len: "map fst (rooms (state (newStore (storage (update demoStore roomUpdate))))) = [''!r'']"
    by (simp add: newStore_def initFromStorage_def update_def Let_def setState_def mergeRooms_def
        roomUpdate_def emptyPartial_def objectValues_def demoStore_def demoRoom_def merge_def
        updateStorage_def entries_def PRESERVED_FIELDS_def truthyRooms_def prepareData_def
        filteredState_def jsonRoundTrip_def clearMessages_def initialState_def)
  then obtain e where e: "rooms (state (newStore (storage (update demoStore roomUpdate)))) = [e]"
    by (cases "rooms (state (newStore (storage (update demoStore roomUpdate))))") auto
  with all have reload: "map (\<lambda>entry. messages (snd entry))
      (rooms (state (newStore (storage (update demoStore roomUpdate))))) = [[]]" by simp
  have wf: "wellFormed demoHeap demoHeapPartial"
    by (simp add: wellFormed_def demoHeap_def demoHeapPartial_def)
  have "(0::nat) < length demoHeap" by (simp add: demoHeap_def)
  with inst have frame: "snd (prepareDataHeap demoHeap demoHeapPartial) ! 0 = demoHeap ! 0" by blast
  have prep: "prepareData (readBack demoHeap demoHeapPartial)
       = emptyPartial\<lparr>u_syncToken := Some ''s1'',
                      u_rooms := Some (RoomRecord [(''!r'', demoRoom\<lparr>messages := []\<rparr>)])\<rparr>"
    by (simp add: prepareData_def readBack_def demoHeap_def demoHeapPartial_def emptyPartial_def
        jsonRoundTrip_def clearMessages_def)
  show ?thesis using h mem reload frame prep by (simp add: demoHeap_def)
qed

section \<open>The client: the claims\<close>

subsection \<open>The check of the client comes first\<close>

lemma waitForJoin_notReady:
  "client w = None \<Longrightarrow> waitForJoin env roomId retry w = (Inl clientNotReadyError, w)"
  by (subst waitForJoin.simps) simp

lemma tryJoinRooms_notReady:
  "client w = None \<Longrightarrow> tryJoinRooms env roomId retry w = (Inl clientNotReadyError, w)"
  by (subst tryJoinRooms.simps) simp

text \<open>
  C8 (as stated: each of the ten operations raises NotReady on a client that is not
  started). On a client that is not a wallet, \<open>prepareStandbyRoom\<close> and
  \<open>getAndRemoveStandbyRoom\<close> test \<open>isWallet\<close> first and return before they look at the
  client: on a new client they return normally.
\<close>

theorem standbyRoom_notReady_counterexample:
  "client newWorld = None
   \<and> isWallet (demoConfig []) = False
   \<and> prepareStandbyRoom demoEnv (demoConfig []) newWorld = (Inr (), newWorld)
   \<and> getAndRemoveStandbyRoom demoEnv (demoConfig []) newWorld = (Inr None, newWorld)"
  by (simp add: newWorld_def demoConfig_def newConfig_def prepareStandbyRoom_def
      getAndRemoveStandbyRoom_def)

text \<open>
  C8 (amended). While \<open>this.client\<close> is undefined, each of \<open>tryJoinRooms\<close>,
  \<open>listenForEncryptedMessage\<close>, \<open>unsubscribeFromEncryptedMessage\<close>,
  \<open>unsubscribeFromEncryptedMessages\<close>, \<open>sendMessage\<close>, \<open>listenForChannelOpening\<close>,
  \<open>waitForJoin\<close> and \<open>sendPairingResponse\<close> throws the NotReady error and leaves the
  world as it was (no effect is made before the throw). \<open>prepareStandbyRoom\<close> and
  \<open>getAndRemoveStandbyRoom\<close> do so when the client is a wallet; when it is not, they
  return (nothing, and \<^verbatim>\<open>undefined\<close>) without any effect.
\<close>

theorem notReady_before_any_effect:
  assumes "client w = None"
  shows "tryJoinRooms env roomId retry w = (Inl clientNotReadyError, w)
       \<and> listenForEncryptedMessage ext senderPublicKey w = (Inl clientNotReadyError, w)
       \<and> unsubscribeFromEncryptedMessage senderPublicKey w = (Inl clientNotReadyError, w)
       \<and> unsubscribeFromEncryptedMessages w = (Inl clientNotReadyError, w)
       \<and> sendMessage ext env cfg message peer w = (Inl clientNotReadyError, w)
       \<and> listenForChannelOpening w = (Inl clientNotReadyError, w)
       \<and> waitForJoin env roomId retry w = (Inl clientNotReadyError, w)
       \<and> sendPairingResponse ext env cfg peer w = (Inl clientNotReadyError, w)
       \<and> prepareStandbyRoom env cfg w
           = (if isWallet cfg then (Inl clientNotReadyError, w) else (Inr (), w))
       \<and> getAndRemoveStandbyRoom env cfg w
           = (if isWallet cfg then (Inl clientNotReadyError, w) else (Inr None, w))
       \<and> clientNotReadyError
           = Error ''Client not ready. Make sure to call \"start\" before you try to use it.''"
  using assms
  by (simp add: tryJoinRooms_notReady waitForJoin_notReady listenForEncryptedMessage_def
      unsubscribeFromEncryptedMessage_def unsubscribeFromEncryptedMessages_def sendMessage_def
      listenForChannelOpening_def sendPairingResponse_def prepareStandbyRoom_def
      getAndRemoveStandbyRoom_def clientNotReadyError_def)

theorem notReady_before_any_effect_witness:
  "client newWorld = None
   \<and> sendMessage (tableExt []) demoEnv (demoConfig []) ''hello'' demoPeer newWorld
       = (Inl (Error ''Client not ready. Make sure to call \"start\" before you try to use it.''), newWorld)
   \<and> waitForJoin demoEnv ''!J'' 0 newWorld = (Inl clientNotReadyError, newWorld)
   \<and> prepareStandbyRoom demoEnv (newConfig ''wallet'' ''pk'' [] None None True) newWorld
       = (Inl clientNotReadyError, newWorld)"
proof -
  have h: "client newWorld = None" by (simp add: newWorld_def)
  have wallet: "isWallet (newConfig ''wallet'' ''pk'' [] None None True)"
    by (simp add: newConfig_def)
  from notReady_before_any_effect [OF h, of demoEnv "''!J''" 0 "tableExt []" "''aa''"
      "newConfig ''wallet'' ''pk'' [] None None True" "''hello''" demoPeer]
    notReady_before_any_effect [OF h, of demoEnv "''!J''" 0 "tableExt []" "''aa''"
      "demoConfig []" "''hello''" demoPeer]
    h wallet
  show ?thesis by simp
qed

subsection \<open>The pairing request\<close>

lemma getRelayServer_own_hash:
  "getRelayServer ext cfg None nonce = getRelayServer ext cfg (Some (getPublicKeyHash ext cfg)) nonce"
  by (simp add: getRelayServer_def effectiveHash_def getPublicKeyHash_def)

text \<open>
  C7 (as stated: the type is \<open>pairing-request\<close>, the relay server is the one selected
  with the nonce \<open>0\<close>, and icon and appUrl are carried exactly when configured). The type
  tag is \<open>p2p-pairing-request\<close>; the relay server is selected with the empty nonce, which
  with two servers can be another server than the one selected with the nonce \<open>0\<close>; and
  an icon url configured as the empty string is not carried.
\<close>

theorem getPairingRequestInfo_counterexample:
  "p2p_type (fst (getPairingRequestInfo (tableExt nonceTable) demoEnv twoServerConfig newWorld))
     = ''p2p-pairing-request''
   \<and> p2p_type (fst (getPairingRequestInfo (tableExt nonceTable) demoEnv twoServerConfig newWorld))
     \<noteq> ''pairing-request''
   \<and> p2p_relayServer (fst (getPairingRequestInfo (tableExt nonceTable) demoEnv twoServerConfig newWorld))
     = Some ''a''
   \<and> getRelayServer (tableExt nonceTable) twoServerConfig
        (Some (getPublicKeyHash (tableExt nonceTable) twoServerConfig)) ''0'' = Some ''b''
   \<and> iconUrl twoServerConfig = Some []
   \<and> p2p_icon (fst (getPairingRequestInfo (tableExt nonceTable) demoEnv twoServerConfig newWorld))
     = None"
  by code_simp

text \<open>
  C7 (amended). \<open>getPairingRequestInfo\<close> draws one id from the UUID generator (so two
  calls yield distinct ids when the generator never repeats) and returns a descriptor with
  that id, the type \<open>p2p-pairing-request\<close>, the configured name, the library version, the
  hex public key, the relay server that \<open>getRelayServer\<close> returns when it is called
  with no argument (the hash of the own public key, the default nonce), and the icon and
  the app url when they are configured and not empty.
\<close>

theorem getPairingRequestInfo_descriptor:
  "p2p_id (fst (getPairingRequestInfo ext env cfg w)) = guid env (length (trace w))
   \<and> trace (snd (getPairingRequestInfo ext env cfg w)) = trace w @ [GenerateGUID]
   \<and> p2p_type (fst (getPairingRequestInfo ext env cfg w)) = ''p2p-pairing-request''
   \<and> p2p_name (fst (getPairingRequestInfo ext env cfg w)) = name cfg
   \<and> p2p_version (fst (getPairingRequestInfo ext env cfg w)) = Some (BEACON_VERSION ext)
   \<and> p2p_publicKey (fst (getPairingRequestInfo ext env cfg w)) = toHex ext (keyPair_publicKey cfg)
   \<and> p2p_relayServer (fst (getPairingRequestInfo ext env cfg w))
       = getRelayServer ext cfg (Some (getPublicKeyHash ext cfg)) []
   \<and> p2p_icon (fst (getPairingRequestInfo ext env cfg w)) = whenTruthy (iconUrl cfg)
   \<and> p2p_appUrl (fst (getPairingRequestInfo ext env cfg w)) = whenTruthy (appUrl cfg)
   \<and> (inj (guid env) \<longrightarrow>
        p2p_id (fst (getPairingRequestInfo ext env cfg (snd (getPairingRequestInfo ext env cfg w))))
          \<noteq> p2p_id (fst (getPairingRequestInfo ext env cfg w)))"
proof -
  have fields: "p2p_id (fst (getPairingRequestInfo ext env cfg w')) = guid env (length (trace w'))
   \<and> trace (snd (getPairingRequestInfo ext env cfg w')) = trace w' @ [GenerateGUID]
   \<and> p2p_type (fst (getPairingRequestInfo ext env cfg w')) = ''p2p-pairing-request''
   \<and> p2p_name (fst (getPairingRequestInfo ext env cfg w')) = name cfg
   \<and> p2p_version (fst (getPairingRequestInfo ext env cfg w')) = Some (BEACON_VERSION ext)
   \<and> p2p_publicKey (fst (getPairingRequestInfo ext env cfg w')) = toHex ext (keyPair_publicKey cfg)
   \<and> p2p_relayServer (fst (getPairingRequestInfo ext env cfg w'))
       = getRelayServer ext cfg (Some (getPublicKeyHash ext cfg)) []
   \<and> p2p_icon (fst (getPairingRequestInfo ext env cfg w')) = whenTruthy (iconUrl cfg)
   \<and> p2p_appUrl (fst (getPairingRequestInfo ext env cfg w')) = whenTruthy (appUrl cfg)" for w'
    by (simp add: getPairingRequestInfo_def generateGUID_def emit_def Let_def getPublicKey_def
        getRelayServer_own_hash [symmetric] truthyString_def whenTruthy_def split: option.splits)
  have "guid env (length (trace (snd (getPairingRequestInfo ext env cfg w))))
          \<noteq> guid env (length (trace w))" if "inj (guid env)"
  proof
    assume "guid env (length (trace (snd (getPairingRequestInfo ext env cfg w))))
              = guid env (length (trace w))"
    with that have "length (trace (snd (getPairingRequestInfo ext env cfg w))) = length (trace w)"
      by (simp add: inj_eq)
    then show False using fields [of w] by simp
  qed
  with fields [of w] fields [of "snd (getPairingRequestInfo ext env cfg w)"]
  show ?thesis by simp
qed

theorem getPairingRequestInfo_descriptor_witness:
  "inj (guid demoEnv)
   \<and> p2p_id (fst (getPairingRequestInfo (tableExt nonceTable) demoEnv twoServerConfig newWorld)) = []
   \<and> p2p_id (fst (getPairingRequestInfo (tableExt nonceTable) demoEnv twoServerConfig
        (snd (getPairingRequestInfo (tableExt nonceTable) demoEnv twoServerConfig newWorld)))) \<noteq> []
   \<and> p2p_appUrl (fst (getPairingRequestInfo (tableExt nonceTable) demoEnv twoServerConfig newWorld))
       = Some ''https://app''"
proof -
  have i: "inj (guid demoEnv)"
  proof (rule injI)
    fix x y assume "guid demoEnv x = guid demoEnv y"
    then have "length (replicate x CHR ''g'') = length (replicate y CHR ''g'')"
      by (simp add: demoEnv_def)
    then show "x = y" by simp
  qed
  have z: "guid demoEnv (length (trace newWorld)) = []" by (simp add: demoEnv_def newWorld_def)
  have a: "whenTruthy (appUrl twoServerConfig) = Some ''https://app''"
    by (simp add: twoServerConfig_def newConfig_def whenTruthy_def)
  note inst = getPairingRequestInfo_descriptor [of "tableExt nonceTable" demoEnv twoServerConfig newWorld]
  let ?first = "getPairingRequestInfo (tableExt nonceTable) demoEnv twoServerConfig newWorld"
  let ?second = "getPairingRequestInfo (tableExt nonceTable) demoEnv twoServerConfig (snd ?first)"
  from inst z have first: "p2p_id (fst ?first) = []" by simp
  from inst i have "p2p_id (fst ?second) \<noteq> p2p_id (fst ?first)" by blast
  with first have second: "p2p_id (fst ?second) \<noteq> []" by simp
  from inst a have "p2p_appUrl (fst ?first) = Some ''https://app''" by simp
  with i first second show ?thesis by simp
qed

subsection \<open>The pairing response\<close>

text \<open>
  C10. The response built by \<open>getPairingResponseInfo\<close> has the id of the request (no id
  is generated: the function does not reach the UUID generator), the type
  \<open>p2p-pairing-response\<close>, and the responder's own name, version, public key and relay
  server. For a request that has a version, \<open>sendPairingResponse\<close>, once the room is
  resolved and joined, sends into that room the text \<open>@channel-open:recipient:sealed\<close>
  where \<open>sealed\<close> is the asymmetric encryption, for the requester's public key, of the
  JSON text of that response.
\<close>

theorem pairing_response_echoes_id:
  "p2p_id (getPairingResponseInfo ext cfg request) = p2p_id request
   \<and> p2p_type (getPairingResponseInfo ext cfg request) = ''p2p-pairing-response''
   \<and> p2p_name (getPairingResponseInfo ext cfg request) = name cfg
   \<and> p2p_version (getPairingResponseInfo ext cfg request) = Some (BEACON_VERSION ext)
   \<and> p2p_publicKey (getPairingResponseInfo ext cfg request) = getPublicKey ext cfg
   \<and> p2p_relayServer (getPairingResponseInfo ext cfg request) = getRelayServer ext cfg None []
   \<and> (\<forall>c roomId w1 w2 v.
         client w = Some c
         \<and> getRelevantRoom env cfg (recipientOf ext request) (emit (Log [''sendPairingResponse'']) w)
             = (Inr roomId, w1)
         \<and> waitForJoin env roomId 0 w1 = (Inr (), w2)
         \<and> p2p_version request = Some v
         \<longrightarrow> fst (sendPairingResponse ext env cfg request w) = Inr ()
             \<and> take (Suc (length (trace w2))) (trace (snd (sendPairingResponse ext env cfg request w)))
                 = trace w2 @
                   [SendTextMessage roomId
                      (''@channel-open'' @ '':'' @ recipientOf ext request @ '':''
                       @ encryptMessageAsymmetric ext (p2p_publicKey request)
                           (stringify ext (getPairingResponseInfo ext cfg request)))])"
  by (auto simp: getPairingResponseInfo_def Let_def sendPairingResponse_def sendTextMessage_def
      emit_def split: prod.splits sum.splits option.splits)

theorem pairing_response_echoes_id_witness:
  "client joinedWorld = Some ''https://matrix.papers.tech''
   \<and> p2p_version demoPeer = Some ''2''
   \<and> fst (sendPairingResponse (tableExt []) demoEnv (demoConfig []) demoPeer joinedWorld) = Inr ()
   \<and> sends (snd (sendPairingResponse (tableExt []) demoEnv (demoConfig []) demoPeer joinedWorld))
       = [SendTextMessage ''!J'' ''@channel-open:@00:relay:sealed(aa,{id:id-1,type:p2p-pairing-response})'']"
proof -
  let ?ext = "tableExt []"
  let ?cfg = "demoConfig []"
  let ?w0 = "emit (Log [''sendPairingResponse'']) joinedWorld"
  let ?w1 = "emit (Log [''getRelevantRoom'', ''Using room !J'']) ?w0"
  let ?w2 = "snd (observeRoom demoEnv ''!J'' ?w1)"
  have c: "client joinedWorld = Some ''https://matrix.papers.tech''"
    by (simp add: joinedWorld_def startedWorld_def newWorld_def)
  have r: "recipientOf ?ext demoPeer = ''@00:relay''"
    by (simp add: recipientOf_def recipientString_def tableExt_def tableHash_def demoPeer_def)
  have g: "getRelevantRoom demoEnv ?cfg (recipientOf ?ext demoPeer) ?w0 = (Inr ''!J'', ?w1)"
    by (simp add: r getRelevantRoom_def Let_def whenTruthy_def emit_def joinedWorld_def
        startedWorld_def newWorld_def)
  have seen: "fst (observeRoom demoEnv ''!J'' ?w1) = 2"
    by (simp add: observeRoom_def getRoomById_def demoEnv_def Let_def)
  have "client ?w1 = Some ''https://matrix.papers.tech''" using c by (simp add: emit_def)
  then have j: "waitForJoin demoEnv ''!J'' 0 ?w1 = (Inr (), ?w2)"
    by (subst waitForJoin.simps) (simp add: seen)
  have v: "p2p_version demoPeer = Some ''2''" by (simp add: demoPeer_def)
  have tr: "trace ?w2 = [Log [''sendPairingResponse''], Log [''getRelevantRoom'', ''Using room !J''],
      GetRoomById ''!J'', Log [''waitForJoin'', ''Currently 2 members, we need at least 2'']]"
    by (simp add: observeRoom_def getRoomById_def demoEnv_def Let_def emit_def joinedWorld_def
        startedWorld_def newWorld_def showNat.simps digitChar_def)
  let ?res = "sendPairingResponse ?ext demoEnv ?cfg demoPeer joinedWorld"
  from pairing_response_echoes_id [of ?ext ?cfg demoPeer joinedWorld demoEnv] c g j v
  have ok: "fst ?res = Inr ()" by blast
  have full: "trace (snd ?res) = trace ?w2 @ [SendTextMessage ''!J''
               (''@channel-open'' @ '':'' @ recipientOf ?ext demoPeer @ '':''
                @ encryptMessageAsymmetric ?ext (p2p_publicKey demoPeer)
                    (stringify ?ext (getPairingResponseInfo ?ext ?cfg demoPeer)))]"
    using c g j v
    by (simp add: sendPairingResponse_def Let_def sendTextMessage_def emit_def demoEnv_def)
  have "sends (snd ?res) = [SendTextMessage ''!J''
               (''@channel-open'' @ '':'' @ recipientOf ?ext demoPeer @ '':''
                @ encryptMessageAsymmetric ?ext (p2p_publicKey demoPeer)
                    (stringify ?ext (getPairingResponseInfo ?ext ?cfg demoPeer)))]"
    by (simp add: full tr sends_def isSend_def)
  moreover have "''@channel-open'' @ '':'' @ recipientOf ?ext demoPeer @ '':''
                @ encryptMessageAsymmetric ?ext (p2p_publicKey demoPeer)
                    (stringify ?ext (getPairingResponseInfo ?ext ?cfg demoPeer))
      = ''@channel-open:@00:relay:sealed(aa,{id:id-1,type:p2p-pairing-response})''"
    unfolding r by (simp add: tableExt_def demoPeer_def getPairingResponseInfo_def Let_def)
  ultimately show ?thesis using c v ok by simp
qed

subsection \<open>Waiting for the join\<close>

lemma observeRoom_frame:
  "client (snd (observeRoom env roomId w)) = client w"
  "now (snd (observeRoom env roomId w)) = now w"
  "timers (snd (observeRoom env roomId w)) = timers w"
  "sends (snd (observeRoom env roomId w)) = sends w"
  "fst (observeRoom env roomId w) = length (members (roomById env (length (trace w)) roomId))"
  by (simp_all add: observeRoom_def getRoomById_def emit_def Let_def timers_def sends_def isSend_def)

lemma waitForJoin_joined:
  assumes "client w = Some c" "2 \<le> fst (observeRoom env roomId w)"
  shows "waitForJoin env roomId retry w = (Inr (), snd (observeRoom env roomId w))"
  using assms by (subst waitForJoin.simps) simp

lemma waitForJoin_retry:
  assumes "client w = Some c" "\<not> 2 \<le> fst (observeRoom env roomId w)" "retry \<le> 200"
  shows "waitForJoin env roomId retry w
           = waitForJoin env roomId (retry + 1)
               (setTimeout (joinDelay retry)
                  (emit (Log [''Waiting for join... Try: '' @ showNat retry])
                     (snd (observeRoom env roomId w))))"
  using assms by (subst waitForJoin.simps) simp

lemma waitForJoin_timeout:
  assumes "client w = Some c" "\<not> 2 \<le> fst (observeRoom env roomId w)" "\<not> retry \<le> 200"
  shows "waitForJoin env roomId retry w
           = (Inl (Error (''No one joined after '' @ showNat retry @ '' tries.'')),
              snd (observeRoom env roomId w))"
  using assms by (subst waitForJoin.simps) simp

lemma waitBudget_step: "retry \<le> 200 \<Longrightarrow> waitBudget retry = joinDelay retry + waitBudget (retry + 1)"
  by (simp add: waitBudget_def upt_conv_Cons)

lemma waitBudget_done: "\<not> retry \<le> 200 \<Longrightarrow> waitBudget retry = 0"
  by (simp add: waitBudget_def)

lemma waitBudget_closed:
  "waitBudget retry
     = (if retry \<le> 50 then (51 - retry) * 100 + 150000
        else if retry \<le> 200 then (201 - retry) * 1000 else 0)"
proof (induction "201 - retry" arbitrary: retry)
  case 0
  then show ?case by (simp add: waitBudget_done)
next
  case (Suc k)
  then have le: "retry \<le> 200" and k: "k = 201 - (retry + 1)" by simp_all
  have ih: "waitBudget (retry + 1)
     = (if retry + 1 \<le> 50 then (51 - (retry + 1)) * 100 + 150000
        else if retry + 1 \<le> 200 then (201 - (retry + 1)) * 1000 else 0)"
    by (rule Suc.hyps(1) [OF k])
  show ?case
    unfolding waitBudget_step [OF le] ih joinDelay_def using le by auto
qed

lemma waitBudget_total: "waitBudget 0 = 155100"
  by (simp add: waitBudget_closed)

lemma waitForJoin_now_bounds:
  "now w \<le> now (snd (waitForJoin env roomId retry w))
   \<and> now (snd (waitForJoin env roomId retry w)) \<le> now w + waitBudget retry"
proof (induction "201 - retry" arbitrary: retry w)
  case 0
  then have over: "\<not> retry \<le> 200" by simp
  show ?case
  proof (cases "client w")
    case None
    then show ?thesis by (simp add: waitForJoin_notReady)
  next
    case (Some c)
    show ?thesis
    proof (cases "2 \<le> fst (observeRoom env roomId w)")
      case True
      show ?thesis by (simp add: waitForJoin_joined [OF Some True] observeRoom_frame)
    next
      case False
      show ?thesis by (simp add: waitForJoin_timeout [OF Some False over] observeRoom_frame)
    qed
  qed
next
  case (Suc k)
  then have le: "retry \<le> 200" and k: "k = 201 - (retry + 1)" by simp_all
  show ?case
  proof (cases "client w")
    case None
    then show ?thesis by (simp add: waitForJoin_notReady)
  next
    case (Some c)
    show ?thesis
    proof (cases "2 \<le> fst (observeRoom env roomId w)")
      case True
      show ?thesis by (simp add: waitForJoin_joined [OF Some True] observeRoom_frame)
    next
      case False
      let ?w' = "setTimeout (joinDelay retry)
                  (emit (Log [''Waiting for join... Try: '' @ showNat retry])
                     (snd (observeRoom env roomId w)))"
      have n: "now ?w' = now w + joinDelay retry"
        by (simp add: setTimeout_def emit_def observeRoom_frame)
      from Suc.hyps(1) [OF k, of ?w']
      show ?thesis
        unfolding waitForJoin_retry [OF Some False le] waitBudget_step [OF le] n by simp
    qed
  qed
qed

lemma waitForJoin_never_joined:
  assumes never: "\<forall>n. length (members (roomById env n roomId)) < 2"
    and started: "client w = Some c"
  shows "fst (waitForJoin env roomId retry w)
           = Inl (Error (''No one joined after '' @ showNat (max retry 201) @ '' tries.''))
         \<and> now (snd (waitForJoin env roomId retry w)) = now w + waitBudget retry
         \<and> length (timers (snd (waitForJoin env roomId retry w))) = length (timers w) + (201 - retry)
         \<and> sends (snd (waitForJoin env roomId retry w)) = sends w"
  using started
proof (induction "201 - retry" arbitrary: retry w)
  case 0
  then have over: "\<not> retry \<le> 200" and m: "max retry 201 = retry" by simp_all
  have nj: "\<not> 2 \<le> fst (observeRoom env roomId w)"
    using never by (simp add: observeRoom_frame not_le)
  show ?case
    using 0(1)
    by (simp add: waitForJoin_timeout [OF "0.prems" nj over] m observeRoom_frame
        waitBudget_done [OF over])
next
  case (Suc k)
  then have le: "retry \<le> 200" and k: "k = 201 - (retry + 1)"
    and m: "max retry 201 = max (retry + 1) 201" by simp_all
  have nj: "\<not> 2 \<le> fst (observeRoom env roomId w)"
    using never by (simp add: observeRoom_frame not_le)
  let ?w' = "setTimeout (joinDelay retry)
              (emit (Log [''Waiting for join... Try: '' @ showNat retry])
                 (snd (observeRoom env roomId w)))"
  have c: "client ?w' = Some c"
    using Suc.prems by (simp add: setTimeout_def emit_def observeRoom_frame)
  have n: "now ?w' = now w + joinDelay retry"
    by (simp add: setTimeout_def emit_def observeRoom_frame)
  have t: "length (timers ?w') = length (timers w) + 1"
    using observeRoom_frame(3) [of env roomId w]
    by (simp add: setTimeout_def emit_def timers_def)
  have s: "sends ?w' = sends w"
    using observeRoom_frame(4) [of env roomId w]
    by (simp add: setTimeout_def emit_def sends_def isSend_def)
  from Suc.hyps(1) [OF k c] le
  show ?case
    unfolding waitForJoin_retry [OF Suc.prems nj le] waitBudget_step [OF le] n t s m by simp
qed

lemma showNat_201: "showNat 201 = ''201''"
  by (simp add: showNat.simps digitChar_def)

lemma demoEnv_never_joined: "\<forall>n. length (members (roomById demoEnv n ''!Z'')) < 2"
  by (simp add: demoEnv_def)

lemma startedWorld_client: "client startedWorld = Some ''https://matrix.papers.tech''"
  by (simp add: startedWorld_def newWorld_def)

text \<open>
  C4 (as stated: the waits of \<open>waitForJoin\<close> add up to about 30 s). In a room that nobody
  joins, the 51 waits of 100 ms and the 150 waits of 1 s add up to 155100 ms before the
  error is thrown.
\<close>

theorem waitForJoin_aggregate_counterexample:
  "client startedWorld = Some ''https://matrix.papers.tech''
   \<and> now startedWorld = 0
   \<and> fst (waitForJoin demoEnv ''!Z'' 0 startedWorld)
       = Inl (Error ''No one joined after 201 tries.'')
   \<and> now (snd (waitForJoin demoEnv ''!Z'' 0 startedWorld)) = 155100
   \<and> 30000 < now (snd (waitForJoin demoEnv ''!Z'' 0 startedWorld))"
  using waitForJoin_never_joined [OF demoEnv_never_joined startedWorld_client, of 0]
  by (simp add: waitBudget_total showNat_201 startedWorld_client)
    (simp add: startedWorld_def newWorld_def)

text \<open>
  C4 (amended). On a started client, \<open>waitForJoin\<close> returns at the first poll of
  \<open>getRoomById\<close> that shows at least 2 members, without setting a timer. Otherwise,
  while the retry count is at most 200, it sets a timer of 100 ms (count at most 50, the
  first 5.1 s) or of 1 s (count above 50) and polls again with the count increased by one;
  with a count above 200 it throws \<open>No one joined after <count> tries.\<close> From the count 0 the
  waits add up to at most 155100 ms, and to exactly that, with 201 timers and the error for
  the count 201, when nobody joins. \<open>sendPairingResponse\<close> waits before it sends and
  passes the error on to its caller.
\<close>

theorem waitForJoin_polling:
  assumes "client w = Some c"
  shows "(2 \<le> length (members (roomById env (length (trace w)) roomId)) \<longrightarrow>
            waitForJoin env roomId retry w = (Inr (), snd (observeRoom env roomId w))
            \<and> now (snd (waitForJoin env roomId retry w)) = now w
            \<and> timers (snd (waitForJoin env roomId retry w)) = timers w)
       \<and> (\<not> 2 \<le> length (members (roomById env (length (trace w)) roomId)) \<and> retry \<le> 200 \<longrightarrow>
            waitForJoin env roomId retry w
              = waitForJoin env roomId (retry + 1)
                  (setTimeout (if retry \<le> 50 then 100 else 1000)
                     (emit (Log [''Waiting for join... Try: '' @ showNat retry])
                        (snd (observeRoom env roomId w)))))
       \<and> (\<not> 2 \<le> length (members (roomById env (length (trace w)) roomId)) \<and> 200 < retry \<longrightarrow>
            waitForJoin env roomId retry w
              = (Inl (Error (''No one joined after '' @ showNat retry @ '' tries.'')),
                 snd (observeRoom env roomId w)))
       \<and> now w \<le> now (snd (waitForJoin env roomId 0 w))
       \<and> now (snd (waitForJoin env roomId 0 w)) \<le> now w + 155100
       \<and> ((\<forall>n. length (members (roomById env n roomId)) < 2) \<longrightarrow>
            fst (waitForJoin env roomId 0 w) = Inl (Error ''No one joined after 201 tries.'')
            \<and> now (snd (waitForJoin env roomId 0 w)) = now w + 155100
            \<and> length (timers (snd (waitForJoin env roomId 0 w))) = length (timers w) + 201
            \<and> sends (snd (waitForJoin env roomId 0 w)) = sends w)
       \<and> (\<forall>room w1 e w2.
            getRelevantRoom env cfg (recipientOf ext request) (emit (Log [''sendPairingResponse'']) w)
              = (Inr room, w1)
            \<and> waitForJoin env room 0 w1 = (Inl e, w2)
            \<longrightarrow> sendPairingResponse ext env cfg request w = (Inl e, w2))"
proof -
  let ?seen = "length (members (roomById env (length (trace w)) roomId))"
  have seen: "fst (observeRoom env roomId w) = ?seen" by (rule observeRoom_frame(5))
  have joined: "waitForJoin env roomId retry w = (Inr (), snd (observeRoom env roomId w))
            \<and> now (snd (waitForJoin env roomId retry w)) = now w
            \<and> timers (snd (waitForJoin env roomId retry w)) = timers w" if "2 \<le> ?seen"
    using waitForJoin_joined [OF assms, of env roomId retry] that
    by (simp add: seen observeRoom_frame)
  have again: "waitForJoin env roomId retry w
              = waitForJoin env roomId (retry + 1)
                  (setTimeout (if retry \<le> 50 then 100 else 1000)
                     (emit (Log [''Waiting for join... Try: '' @ showNat retry])
                        (snd (observeRoom env roomId w))))"
    if "\<not> 2 \<le> ?seen" "retry \<le> 200"
  proof -
    have d: "joinDelay retry = (if retry \<le> 50 then 100 else 1000)" by (simp add: joinDelay_def)
    from that(1) have "\<not> 2 \<le> fst (observeRoom env roomId w)" by (simp add: seen)
    from waitForJoin_retry [OF assms this that(2)] show ?thesis by (simp only: d)
  qed
  have fail: "waitForJoin env roomId retry w
              = (Inl (Error (''No one joined after '' @ showNat retry @ '' tries.'')),
                 snd (observeRoom env roomId w))"
    if "\<not> 2 \<le> ?seen" "200 < retry"
  proof -
    from that(1) have a: "\<not> 2 \<le> fst (observeRoom env roomId w)" by (simp add: seen)
    from that(2) have b: "\<not> retry \<le> 200" by simp
    from waitForJoin_timeout [OF assms a b] show ?thesis .
  qed
  have bounds: "now w \<le> now (snd (waitForJoin env roomId 0 w))
       \<and> now (snd (waitForJoin env roomId 0 w)) \<le> now w + 155100"
    using waitForJoin_now_bounds [of w env roomId 0] by (simp add: waitBudget_total)
  have never: "fst (waitForJoin env roomId 0 w) = Inl (Error ''No one joined after 201 tries.'')
            \<and> now (snd (waitForJoin env roomId 0 w)) = now w + 155100
            \<and> length (timers (snd (waitForJoin env roomId 0 w))) = length (timers w) + 201
            \<and> sends (snd (waitForJoin env roomId 0 w)) = sends w"
    if "\<forall>n. length (members (roomById env n roomId)) < 2"
    using waitForJoin_never_joined [OF that assms, of 0]
    by (simp add: waitBudget_total showNat_201)
  have surfaced: "sendPairingResponse ext env cfg request w = (Inl e, w2)"
    if "getRelevantRoom env cfg (recipientOf ext request) (emit (Log [''sendPairingResponse'']) w)
          = (Inr room, w1)" "waitForJoin env room 0 w1 = (Inl e, w2)" for room w1 e w2
    using assms that by (simp add: sendPairingResponse_def Let_def)
  from joined again fail bounds never surfaced show ?thesis by blast
qed

theorem waitForJoin_polling_witness:
  "client startedWorld = Some ''https://matrix.papers.tech''
   \<and> waitForJoin demoEnv ''!J'' 7 startedWorld = (Inr (), snd (observeRoom demoEnv ''!J'' startedWorld))
   \<and> timers (snd (waitForJoin demoEnv ''!J'' 7 startedWorld)) = []
   \<and> length (timers (snd (waitForJoin demoEnv ''!Z'' 0 startedWorld))) = 201
   \<and> sends (snd (waitForJoin demoEnv ''!Z'' 0 startedWorld)) = []"
proof -
  have j: "2 \<le> length (members (roomById demoEnv (length (trace startedWorld)) ''!J''))"
    by (simp add: demoEnv_def)
  have t: "timers startedWorld = []" "sends startedWorld = []"
    by (simp_all add: timers_def sends_def startedWorld_def newWorld_def)
  note a = waitForJoin_polling [OF startedWorld_client, of demoEnv "''!J''" 7 "demoConfig []"
      "tableExt []" demoPeer]
  note b = waitForJoin_polling [OF startedWorld_client, of demoEnv "''!Z''" 0 "demoConfig []"
      "tableExt []" demoPeer]
  from a j have "waitForJoin demoEnv ''!J'' 7 startedWorld
      = (Inr (), snd (observeRoom demoEnv ''!J'' startedWorld))"
    and "timers (snd (waitForJoin demoEnv ''!J'' 7 startedWorld)) = timers startedWorld"
    by blast+
  moreover from b demoEnv_never_joined
  have "length (timers (snd (waitForJoin demoEnv ''!Z'' 0 startedWorld))) = length (timers startedWorld) + 201"
    and "sends (snd (waitForJoin demoEnv ''!Z'' 0 startedWorld)) = sends startedWorld"
    by blast+
  ultimately show ?thesis using t startedWorld_client by simp
qed

subsection \<open>Sending, and the retry after a forbidden send\<close>

lemma emit_frame:
  "client (emit e w) = client w"
  "peerRoomIds (emit e w) = peerRoomIds w"
  "trace (emit e w) = trace w @ [e]"
  "sends (emit e w) = sends w @ (if isSend e then [e] else [])"
  by (simp_all add: emit_def sends_def)

lemma update_fresh: "k \<notin> fst ` set al \<Longrightarrow> AList.update k v al = al @ [(k, v)]"
  by (induction al) auto

lemma foldl_update_distinct:
  "distinct (map fst (init @ xs)) \<Longrightarrow>
   foldl (\<lambda>pv cv. AList.update (fst cv) (snd cv) pv) init xs = init @ xs"
proof (induction xs arbitrary: init)
  case Nil
  show ?case by simp
next
  case (Cons x xs)
  from Cons.prems have fresh: "fst x \<notin> fst ` set init" by auto
  from Cons.prems have "distinct (map fst ((init @ [x]) @ xs))" by simp
  from Cons.IH [OF this] show ?case by (simp add: update_fresh [OF fresh])
qed

lemma deleteRoomIdFromRooms_filter:
  assumes "distinct (map fst (peerRoomIds w))"
  shows "peerRoomIds (deleteRoomIdFromRooms roomId w)
           = filter (\<lambda>entry. snd entry \<noteq> roomId) (peerRoomIds w)"
proof -
  have "distinct (map fst ([] @ filter (\<lambda>entry. snd entry \<noteq> roomId) (peerRoomIds w)))"
    using assms by (simp add: distinct_map_filter)
  from foldl_update_distinct [OF this] show ?thesis
    by (simp add: deleteRoomIdFromRooms_def Let_def)
qed

lemma deleteRoomIdFromRooms_frame:
  "client (deleteRoomIdFromRooms roomId w) = client w"
  "trace (deleteRoomIdFromRooms roomId w) = trace w"
  "sends (deleteRoomIdFromRooms roomId w) = sends w"
  by (simp_all add: deleteRoomIdFromRooms_def Let_def sends_def)

lemma routingFrame_refl: "routingFrame w w"
  by (simp add: routingFrame_def)

lemma routingFrame_trans: "routingFrame w w1 \<Longrightarrow> routingFrame w1 w2 \<Longrightarrow> routingFrame w w2"
  by (simp add: routingFrame_def)

lemma routingFrame_emit: "\<not> isSend e \<Longrightarrow> routingFrame w (emit e w)"
  by (simp add: routingFrame_def emit_frame)

lemma routingFrame_emit_after: "\<not> isSend e \<Longrightarrow> routingFrame w w1 \<Longrightarrow> routingFrame w (emit e w1)"
  by (simp add: routingFrame_def emit_frame)

lemma routingFrame_standby: "routingFrame w (w\<lparr>standbyRoom := s\<rparr>)"
  by (simp add: routingFrame_def sends_def)

lemma createTrustedPrivateRoom_frame:
  "createTrustedPrivateRoom env invitees w = (r, w') \<Longrightarrow> routingFrame w w'"
  by (auto simp: createTrustedPrivateRoom_def routingFrame_def emit_frame isSend_def)

lemma inviteToRooms_frame:
  "inviteToRooms env user roomIds w = (r, w') \<Longrightarrow> routingFrame w w'"
  by (auto simp: inviteToRooms_def routingFrame_def emit_frame isSend_def)

lemma getRoomById_frame: "getRoomById env roomId w = (r, w') \<Longrightarrow> routingFrame w w'"
  by (auto simp: getRoomById_def routingFrame_def emit_frame isSend_def)

lemma joinedRooms_frame: "joinedRooms env w = (r, w') \<Longrightarrow> routingFrame w w'"
  by (auto simp: joinedRooms_def routingFrame_def emit_frame isSend_def)

lemma prepareStandbyRoom_frame:
  "prepareStandbyRoom env cfg w = (r, w') \<Longrightarrow> routingFrame w w'"
  by (auto simp: prepareStandbyRoom_def routingFrame_refl routingFrame_def sends_def
      split: if_splits option.splits prod.splits sum.splits
      dest!: createTrustedPrivateRoom_frame)

lemma prepareStandbyRoomLogged_frame:
  "routingFrame w (prepareStandbyRoomLogged env cfg w)"
  by (auto simp: prepareStandbyRoomLogged_def routingFrame_def emit_frame isSend_def
      split: prod.splits sum.splits dest!: prepareStandbyRoom_frame)

lemma getAndRemoveStandbyRoom_frame:
  "getAndRemoveStandbyRoom env cfg w = (r, w') \<Longrightarrow> routingFrame w w'"
proof -
  have "routingFrame w (prepareStandbyRoomLogged env cfg (w\<lparr>standbyRoom := None\<rparr>))"
    by (rule routingFrame_trans [OF routingFrame_standby prepareStandbyRoomLogged_frame])
  then show "getAndRemoveStandbyRoom env cfg w = (r, w') \<Longrightarrow> routingFrame w w'"
    by (auto simp: getAndRemoveStandbyRoom_def routingFrame_refl
        split: if_splits option.splits)
qed

lemma getRelevantJoinedRoom_frame:
  assumes "getRelevantJoinedRoom env cfg recipient w = (r, w')"
  shows "routingFrame w w'"
proof (cases "client w")
  case None
  with assms show ?thesis by (simp add: getRelevantJoinedRoom_def routingFrame_refl)
next
  case (Some c)
  obtain joined w0 where j: "joinedRooms env w = (joined, w0)" by (cases "joinedRooms env w")
  let ?w1 = "emit (Log [''checking joined rooms'']) w0"
  have f1: "routingFrame w ?w1"
    by (rule routingFrame_emit_after [OF _ joinedRooms_frame [OF j]]) (simp add: isSend_def)
  show ?thesis
  proof (cases "filter (\<lambda>roomElement. recipient \<in> set (members roomElement)) joined")
    case (Cons room rest)
    with assms Some j have "w' = emit (Log [''getRelevantJoinedRoom'',
        ''channel already open, reusing room '' @ room_id room]) ?w1"
      by (auto simp: getRelevantJoinedRoom_def Let_def)
    then show ?thesis using f1 by (simp add: routingFrame_emit_after isSend_def)
  next
    case Nil
    let ?w1' = "emit (Log [''getRelevantJoinedRoom'', ''no relevant rooms found'']) ?w1"
    have f1': "routingFrame w ?w1'" using f1 by (simp add: routingFrame_emit_after isSend_def)
    obtain sr w2 where g: "getAndRemoveStandbyRoom env cfg ?w1' = (sr, w2)"
      by (cases "getAndRemoveStandbyRoom env cfg ?w1'")
    have f2: "routingFrame w w2"
      by (rule routingFrame_trans [OF f1' getAndRemoveStandbyRoom_frame [OF g]])
    show ?thesis
    proof (cases sr)
      case (Inl e)
      with assms Some j Nil g have "w' = w2" by (auto simp: getRelevantJoinedRoom_def Let_def)
      with f2 show ?thesis by simp
    next
      case (Inr standby)
      let ?made = "(case whenTruthy standby of
                      Some standbyRoomId \<Rightarrow>
                        (case inviteToRooms env recipient [standbyRoomId]
                                (emit (Log [''getRelevantJoinedRoom'', ''using standby room'']) w2) of
                           (Inl e, w3) \<Rightarrow> (Inl e, w3)
                         | (Inr u, w3) \<Rightarrow> (Inr standbyRoomId, w3))
                    | None \<Rightarrow>
                        createTrustedPrivateRoom env [recipient]
                          (emit (Log [''getRelevantJoinedRoom'', ''creating new room'']) w2))"
      obtain m w3 where made: "?made = (m, w3)" by (cases ?made)
      have f3: "routingFrame w2 w3"
      proof (cases "whenTruthy standby")
        case None
        with made have "createTrustedPrivateRoom env [recipient]
            (emit (Log [''getRelevantJoinedRoom'', ''creating new room'']) w2) = (m, w3)" by simp
        from createTrustedPrivateRoom_frame [OF this] show ?thesis
          by (simp add: routingFrame_def emit_frame isSend_def)
      next
        case (Some standbyRoomId)
        obtain ir wi where inv: "inviteToRooms env recipient [standbyRoomId]
            (emit (Log [''getRelevantJoinedRoom'', ''using standby room'']) w2) = (ir, wi)"
          by (cases "inviteToRooms env recipient [standbyRoomId]
            (emit (Log [''getRelevantJoinedRoom'', ''using standby room'']) w2)")
        with made Some have "w3 = wi" by (auto split: sum.splits)
        with inviteToRooms_frame [OF inv] show ?thesis
          by (simp add: routingFrame_def emit_frame isSend_def)
      qed
      have f3': "routingFrame w w3" by (rule routingFrame_trans [OF f2 f3])
      show ?thesis
      proof (cases m)
        case (Inl e)
        with assms \<open>client w = Some c\<close> j Nil g Inr made have "w' = w3"
          by (simp add: getRelevantJoinedRoom_def Let_def)
        with f3' show ?thesis by simp
      next
        case (Inr roomId)
        obtain room w4 where gr: "getRoomById env roomId w3 = (room, w4)"
          by (cases "getRoomById env roomId w3")
        with assms \<open>client w = Some c\<close> j Nil g \<open>sr = Inr standby\<close> made Inr
        have "w' = emit (Log [''getRelevantJoinedRoom'']) w4"
          by (simp add: getRelevantJoinedRoom_def Let_def)
        moreover have "routingFrame w w4"
          by (rule routingFrame_trans [OF f3' getRoomById_frame [OF gr]])
        ultimately show ?thesis by (simp add: routingFrame_emit_after isSend_def)
      qed
    qed
  qed
qed

lemma getRelevantRoom_frame:
  assumes "getRelevantRoom env cfg recipient w = (r, w')"
  shows "sends w' = sends w \<and> client w' = client w
         \<and> (distinct (map fst (peerRoomIds w)) \<longrightarrow> distinct (map fst (peerRoomIds w')))"
proof (cases "whenTruthy (map_of (peerRoomIds w) recipient)")
  case (Some roomId)
  with assms have "w' = emit (Log [''getRelevantRoom'', ''Using room '' @ roomId]) w"
    by (auto simp: getRelevantRoom_def Let_def)
  then show ?thesis by (simp add: emit_frame isSend_def)
next
  case None
  let ?w0 = "emit (Log [''getRelevantRoom'',
                ''No room found for peer '' @ recipient @ '', checking joined ones.'']) w"
  obtain jr w1 where j: "getRelevantJoinedRoom env cfg recipient ?w0 = (jr, w1)"
    by (cases "getRelevantJoinedRoom env cfg recipient ?w0")
  have "routingFrame ?w0 w1" by (rule getRelevantJoinedRoom_frame [OF j])
  then have f: "sends w1 = sends w" "client w1 = client w" "peerRoomIds w1 = peerRoomIds w"
    by (simp_all add: routingFrame_def emit_frame isSend_def)
  show ?thesis
  proof (cases jr)
    case (Inl e)
    with assms None j have "w' = w1" by (simp add: getRelevantRoom_def Let_def)
    with f show ?thesis by simp
  next
    case (Inr room)
    with assms None j have "w' = emit (Log [''getRelevantRoom'', ''Using room '' @ room_id room])
        (w1\<lparr>peerRoomIds := AList.update recipient (room_id room) (peerRoomIds w)\<rparr>)"
      by (simp add: getRelevantRoom_def Let_def)
    then show ?thesis using f
      by (simp add: emit_frame isSend_def sends_def emit_def distinct_update)
  qed
qed

lemma detach_sends: "sends (detach r) = sends (snd r)"
  by (cases r) (auto simp: detach_def emit_frame isSend_def split: sum.splits)

lemma sendTextMessage_sends:
  "sends (snd (sendTextMessage env roomId message w)) = sends w @ [SendTextMessage roomId message]"
  by (simp add: sendTextMessage_def emit_frame isSend_def)

lemma sendMessageCatch_sends_bound:
  "length (sends (snd (sendMessageCatch env cfg recipient roomId encryptedMessage err w)))
     \<le> length (sends w) + 1"
proof (cases "errcode err = Some ''M_FORBIDDEN''")
  case False
  then show ?thesis by (simp add: sendMessageCatch_def emit_frame isSend_def)
next
  case True
  let ?w0 = "deleteRoomIdFromRooms roomId (emit (Log [''sendMessage'', ''M_FORBIDDEN'']) w)"
  have s0: "sends ?w0 = sends w" by (simp add: deleteRoomIdFromRooms_frame emit_frame isSend_def)
  obtain r w1 where g: "getRelevantRoom env cfg recipient ?w0 = (r, w1)"
    by (cases "getRelevantRoom env cfg recipient ?w0")
  from getRelevantRoom_frame [OF g] s0 have s1: "sends w1 = sends w" by simp
  show ?thesis
  proof (cases r)
    case (Inl e)
    with True g s1 show ?thesis by (simp add: sendMessageCatch_def)
  next
    case (Inr newRoomId)
    show ?thesis
    proof (cases "client w1")
      case None
      with True g Inr s1 show ?thesis by (simp add: sendMessageCatch_def)
    next
      case (Some c)
      with True g Inr s1 show ?thesis
        using sendTextMessage_sends [of env newRoomId encryptedMessage w1]
        by (auto simp: sendMessageCatch_def emit_frame isSend_def split: prod.splits sum.splits)
    qed
  qed
qed

lemma sendMessage_sends_bound:
  "length (sends (snd (sendMessage ext env cfg message peer w))) \<le> length (sends w) + 2"
proof (cases "client w")
  case None
  then show ?thesis by (simp add: sendMessage_def)
next
  case (Some c)
  obtain r w1 where g: "getRelevantRoom env cfg (recipientOf ext peer) w = (r, w1)"
    by (cases "getRelevantRoom env cfg (recipientOf ext peer) w")
  from getRelevantRoom_frame [OF g] have s1: "sends w1 = sends w" by simp
  show ?thesis
  proof (cases r)
    case (Inl e)
    with Some g s1 show ?thesis by (simp add: sendMessage_def Let_def)
  next
    case (Inr roomId)
    let ?enc = "encryptCryptoboxPayload ext message (sharedTx ext (p2p_publicKey peer))"
    obtain sr w2 where s: "sendTextMessage env roomId ?enc w1 = (sr, w2)"
      by (cases "sendTextMessage env roomId ?enc w1")
    from sendTextMessage_sends [of env roomId ?enc w1] s s1
    have s2: "length (sends w2) = length (sends w) + 1" by simp
    show ?thesis
    proof (cases sr)
      case (Inl err)
      with Some g Inr s have "snd (sendMessage ext env cfg message peer w)
          = detach (sendMessageCatch env cfg (recipientOf ext peer) roomId ?enc err w2)"
        by (simp add: sendMessage_def Let_def)
      then show ?thesis
        using sendMessageCatch_sends_bound [of env cfg "recipientOf ext peer" roomId ?enc err w2] s2
        by (simp add: detach_sends)
    next
      case (Inr u)
      with Some g \<open>r = Inr roomId\<close> s have "snd (sendMessage ext env cfg message peer w) = w2"
        by (simp add: sendMessage_def Let_def)
      with s2 show ?thesis by simp
    qed
  qed
qed

lemma getRelevantRoom_binding:
  assumes "getRelevantRoom env cfg recipient w = (Inr r, w')"
  shows "(map_of (peerRoomIds w) recipient = Some r \<and> peerRoomIds w' = peerRoomIds w)
       \<or> (whenTruthy (map_of (peerRoomIds w) recipient) = None
           \<and> peerRoomIds w' = AList.update recipient r (peerRoomIds w))"
proof (cases "whenTruthy (map_of (peerRoomIds w) recipient)")
  case (Some roomId)
  then have "map_of (peerRoomIds w) recipient = Some roomId"
    by (auto simp: whenTruthy_def split: option.splits if_splits)
  moreover from assms Some have "r = roomId"
    and "w' = emit (Log [''getRelevantRoom'', ''Using room '' @ roomId]) w"
    by (auto simp: getRelevantRoom_def Let_def)
  ultimately show ?thesis by (simp add: emit_frame)
next
  case None
  let ?w0 = "emit (Log [''getRelevantRoom'',
                ''No room found for peer '' @ recipient @ '', checking joined ones.'']) w"
  obtain jr w1 where j: "getRelevantJoinedRoom env cfg recipient ?w0 = (jr, w1)"
    by (cases "getRelevantJoinedRoom env cfg recipient ?w0")
  show ?thesis
  proof (cases jr)
    case (Inl e)
    with assms None j show ?thesis by (simp add: getRelevantRoom_def Let_def)
  next
    case (Inr room)
    with assms None j have "r = room_id room"
      and "w' = emit (Log [''getRelevantRoom'', ''Using room '' @ room_id room])
        (w1\<lparr>peerRoomIds := AList.update recipient (room_id room) (peerRoomIds w)\<rparr>)"
      by (auto simp: getRelevantRoom_def Let_def)
    with None show ?thesis by (simp add: emit_def)
  qed
qed

lemma map_of_filter_value:
  assumes "distinct (map fst xs)" "map_of xs k = Some v"
  shows "map_of (filter (\<lambda>entry. snd entry \<noteq> v) xs) k = None"
proof -
  have "k \<notin> fst ` set (filter (\<lambda>entry. snd entry \<noteq> v) xs)"
  proof
    assume "k \<in> fst ` set (filter (\<lambda>entry. snd entry \<noteq> v) xs)"
    then obtain v' where in_xs: "(k, v') \<in> set xs" and ne: "v' \<noteq> v" by auto
    from in_xs assms(1) have "map_of xs k = Some v'" by simp
    with assms(2) ne show False by simp
  qed
  then show ?thesis by (simp add: map_of_eq_None_iff)
qed

text \<open>When the second resolution throws instead, no second send is made; the rejection
  of the handler is not handled, and \<open>sendMessage\<close> has returned normally.\<close>

lemma sendMessage_forbidden_unresolved:
  assumes recipient: "recipient = recipientOf ext peer"
    and encrypted: "encryptedMessage
                      = encryptCryptoboxPayload ext message (sharedTx ext (p2p_publicKey peer))"
    and started: "client w = Some c"
    and resolved: "getRelevantRoom env cfg recipient w = (Inr roomId, w1)"
    and forbidden: "sendResult env (length (trace w1)) roomId encryptedMessage = Some ''M_FORBIDDEN''"
    and evicted: "evicted = deleteRoomIdFromRooms roomId
                     (emit (Log [''sendMessage'', ''M_FORBIDDEN''])
                        (emit (SendTextMessage roomId encryptedMessage) w1))"
    and again: "getRelevantRoom env cfg recipient evicted = (Inl e, w3)"
  shows "sendMessage ext env cfg message peer w = (Inr (), emit (UnhandledRejection e) w3)
       \<and> sends (snd (sendMessage ext env cfg message peer w))
           = sends w @ [SendTextMessage roomId encryptedMessage]"
proof -
  let ?sent = "emit (SendTextMessage roomId encryptedMessage) w1"
  let ?logged = "emit (Log [''sendMessage'', ''M_FORBIDDEN'']) ?sent"
  have ev: "deleteRoomIdFromRooms roomId ?logged = evicted" by (simp only: evicted)
  from getRelevantRoom_frame [OF resolved] have f1: "sends w1 = sends w" by simp
  have se: "sends evicted = sends w @ [SendTextMessage roomId encryptedMessage]"
    by (simp add: ev [symmetric] deleteRoomIdFromRooms_frame emit_frame isSend_def f1)
  from getRelevantRoom_frame [OF again] se
  have f3: "sends w3 = sends w @ [SendTextMessage roomId encryptedMessage]" by simp
  have catch: "sendMessageCatch env cfg recipient roomId encryptedMessage (Rejected ''M_FORBIDDEN'') ?sent
                 = (Inl e, w3)"
    by (simp add: sendMessageCatch_def errcode_def ev again)
  have first: "sendTextMessage env roomId encryptedMessage w1 = (Inl (Rejected ''M_FORBIDDEN''), ?sent)"
    using forbidden by (simp add: sendTextMessage_def)
  have res: "sendMessage ext env cfg message peer w = (Inr (), emit (UnhandledRejection e) w3)"
    using started
    by (simp add: sendMessage_def Let_def recipient [symmetric] encrypted [symmetric]
        resolved first catch detach_def)
  then show ?thesis by (simp add: emit_frame isSend_def f3)
qed

text \<open>
  C3 (as stated: after a forbidden first send a fresh room is resolved and exactly one
  retry is sent). The second resolution is a call of \<open>getRelevantRoom\<close> inside the
  handler of the rejection. When no room can be created it throws: then the only send is
  the refused one, and the rejection of the handler is left unhandled. And when the
  refused room \<open>!X\<close> is still among the joined rooms with the peer as a member, it is
  \<open>!X\<close> that is resolved again: the retry goes into \<open>!X\<close>, and the peer is bound to it
  anew.
\<close>

theorem sendMessage_forbidden_counterexample:
  "client forbiddenWorld = Some ''https://matrix.papers.tech''
   \<and> recipientOf (tableExt []) demoPeer = ''@00:relay''
   \<and> fst (getRelevantRoom failingEnv (demoConfig []) ''@00:relay'' forbiddenWorld) = Inr ''!X''
   \<and> sendResult failingEnv
         (length (trace (snd (getRelevantRoom failingEnv (demoConfig []) ''@00:relay'' forbiddenWorld))))
         ''!X'' ''box(tx-aa,hello)'' = Some ''M_FORBIDDEN''
   \<and> fst (getRelevantRoom staleEnv (demoConfig []) ''@00:relay'' forbiddenWorld) = Inr ''!X''
   \<and> sendResult staleEnv
         (length (trace (snd (getRelevantRoom staleEnv (demoConfig []) ''@00:relay'' forbiddenWorld))))
         ''!X'' ''box(tx-aa,hello)'' = Some ''M_FORBIDDEN''
   \<and> fst (sendMessage (tableExt []) failingEnv (demoConfig []) ''hello'' demoPeer forbiddenWorld) = Inr ()
   \<and> sends (snd (sendMessage (tableExt []) failingEnv (demoConfig []) ''hello'' demoPeer forbiddenWorld))
       = [SendTextMessage ''!X'' ''box(tx-aa,hello)'']
   \<and> last (trace (snd (sendMessage (tableExt []) failingEnv (demoConfig []) ''hello'' demoPeer
         forbiddenWorld)))
       = UnhandledRejection (Rejected ''M_LIMIT_EXCEEDED'')
   \<and> sends (snd (sendMessage (tableExt []) staleEnv (demoConfig []) ''hello'' demoPeer forbiddenWorld))
       = [SendTextMessage ''!X'' ''box(tx-aa,hello)'', SendTextMessage ''!X'' ''box(tx-aa,hello)'']
   \<and> peerRoomIds (snd (sendMessage (tableExt []) staleEnv (demoConfig []) ''hello'' demoPeer
         forbiddenWorld))
       = [(''@third'', ''!Z''), (''@00:relay'', ''!X'')]"
  by code_simp

text \<open>
  C3 (amended). On a started client whose routing cache has distinct keys (it is an
  object), let the room resolved for the recipient be \<open>roomId\<close> and let the first send into
  it be rejected with \<open>M_FORBIDDEN\<close>. Then \<open>deleteRoomIdFromRooms\<close> leaves in the cache
  exactly the entries whose value is not \<open>roomId\<close>, in their order, so the recipient is
  bound to no room; \<open>getRelevantRoom\<close> is called again for the recipient on that cache;
  and \<open>sendMessage\<close> returns normally, whatever follows. If the second resolution
  returns a room \<open>newRoomId\<close> (nothing says that it differs from \<open>roomId\<close>), the recipient
  is bound to it, at the end of the cache, and the same encrypted message is sent into it,
  once; a failure of that send is logged, nothing is thrown or left unhandled, and the
  sends made are these two. If the second resolution throws, no second send is made and
  the rejection of the handler is left unhandled. From any world, \<open>sendMessage\<close> makes at
  most two sends.
\<close>

theorem sendMessage_forbidden_retry:
  assumes recipient: "recipient = recipientOf ext peer"
    and encrypted: "encryptedMessage
                      = encryptCryptoboxPayload ext message (sharedTx ext (p2p_publicKey peer))"
    and started: "client w = Some c"
    and keys: "distinct (map fst (peerRoomIds w))"
    and resolved: "getRelevantRoom env cfg recipient w = (Inr roomId, w1)"
    and forbidden: "sendResult env (length (trace w1)) roomId encryptedMessage = Some ''M_FORBIDDEN''"
    and evicted: "evicted = deleteRoomIdFromRooms roomId
                     (emit (Log [''sendMessage'', ''M_FORBIDDEN''])
                        (emit (SendTextMessage roomId encryptedMessage) w1))"
  shows "peerRoomIds evicted = filter (\<lambda>entry. snd entry \<noteq> roomId) (peerRoomIds w1)
       \<and> map_of (peerRoomIds evicted) recipient = None
       \<and> fst (sendMessage ext env cfg message peer w) = Inr ()
       \<and> (\<forall>newRoomId w3.
             getRelevantRoom env cfg recipient evicted = (Inr newRoomId, w3) \<longrightarrow>
               trace (snd (sendMessage ext env cfg message peer w))
                 = trace w3 @ SendTextMessage newRoomId encryptedMessage
                     # (case sendResult env (length (trace w3)) newRoomId encryptedMessage of
                          None \<Rightarrow> []
                        | Some code \<Rightarrow> [Log [''sendMessage'', ''inner error'']])
               \<and> sends (snd (sendMessage ext env cfg message peer w))
                   = sends w @ [SendTextMessage roomId encryptedMessage,
                                SendTextMessage newRoomId encryptedMessage]
               \<and> peerRoomIds (snd (sendMessage ext env cfg message peer w))
                   = filter (\<lambda>entry. snd entry \<noteq> roomId) (peerRoomIds w1)
                       @ [(recipient, newRoomId)])
       \<and> (\<forall>e w3.
             getRelevantRoom env cfg recipient evicted = (Inl e, w3) \<longrightarrow>
               snd (sendMessage ext env cfg message peer w) = emit (UnhandledRejection e) w3
               \<and> sends (snd (sendMessage ext env cfg message peer w))
                   = sends w @ [SendTextMessage roomId encryptedMessage])
       \<and> (\<forall>w'. length (sends (snd (sendMessage ext env cfg message peer w')))
                  \<le> length (sends w') + 2)"
proof -
  let ?sent = "emit (SendTextMessage roomId encryptedMessage) w1"
  let ?logged = "emit (Log [''sendMessage'', ''M_FORBIDDEN'']) ?sent"
  let ?kept = "filter (\<lambda>entry. snd entry \<noteq> roomId) (peerRoomIds w1)"
  from getRelevantRoom_frame [OF resolved] started keys
  have f1: "sends w1 = sends w" "client w1 = Some c" "distinct (map fst (peerRoomIds w1))"
    by simp_all
  have bound: "map_of (peerRoomIds w1) recipient = Some roomId"
    using getRelevantRoom_binding [OF resolved] by (auto simp: update_conv')
  have ev: "deleteRoomIdFromRooms roomId ?logged = evicted" by (simp only: evicted)
  have "distinct (map fst (peerRoomIds ?logged))" using f1(3) by (simp add: emit_frame)
  from deleteRoomIdFromRooms_filter [OF this, of roomId]
  have cache: "peerRoomIds evicted = ?kept" by (simp add: ev emit_frame)
  have unbound: "map_of (peerRoomIds evicted) recipient = None"
    unfolding cache by (rule map_of_filter_value [OF f1(3) bound])
  have se: "sends evicted = sends w @ [SendTextMessage roomId encryptedMessage]"
    by (simp add: ev [symmetric] deleteRoomIdFromRooms_frame emit_frame isSend_def f1)
  have ce: "client evicted = Some c"
    by (simp add: ev [symmetric] deleteRoomIdFromRooms_frame emit_frame f1)
  have first: "sendTextMessage env roomId encryptedMessage w1 = (Inl (Rejected ''M_FORBIDDEN''), ?sent)"
    using forbidden by (simp add: sendTextMessage_def)
  have returns: "fst (sendMessage ext env cfg message peer w) = Inr ()"
    using started
    by (simp add: sendMessage_def Let_def recipient [symmetric] encrypted [symmetric]
        resolved first)
  have retried: "trace (snd (sendMessage ext env cfg message peer w))
                 = trace w3 @ SendTextMessage newRoomId encryptedMessage
                     # (case sendResult env (length (trace w3)) newRoomId encryptedMessage of
                          None \<Rightarrow> []
                        | Some code \<Rightarrow> [Log [''sendMessage'', ''inner error'']])
               \<and> sends (snd (sendMessage ext env cfg message peer w))
                   = sends w @ [SendTextMessage roomId encryptedMessage,
                                SendTextMessage newRoomId encryptedMessage]
               \<and> peerRoomIds (snd (sendMessage ext env cfg message peer w))
                   = ?kept @ [(recipient, newRoomId)]"
    if again: "getRelevantRoom env cfg recipient evicted = (Inr newRoomId, w3)" for newRoomId w3
  proof -
    from getRelevantRoom_frame [OF again] se ce
    have f3: "sends w3 = sends w @ [SendTextMessage roomId encryptedMessage]" "client w3 = Some c"
      by simp_all
    from getRelevantRoom_binding [OF again] unbound
    have "peerRoomIds w3 = AList.update recipient newRoomId (peerRoomIds evicted)" by simp
    moreover have "recipient \<notin> fst ` set (peerRoomIds evicted)"
      using unbound by (simp add: map_of_eq_None_iff)
    ultimately have p3: "peerRoomIds w3 = ?kept @ [(recipient, newRoomId)]"
      by (simp add: update_fresh cache)
    let ?tail = "(case sendResult env (length (trace w3)) newRoomId encryptedMessage of
                    None \<Rightarrow> []
                  | Some code \<Rightarrow> [Log [''sendMessage'', ''inner error'']])"
    let ?final = "w3\<lparr>trace := trace w3 @ SendTextMessage newRoomId encryptedMessage # ?tail\<rparr>"
    have second: "(case sendTextMessage env newRoomId encryptedMessage w3 of
                     (Inr u, w4) \<Rightarrow> (Inr (), w4)
                   | (Inl error2, w4) \<Rightarrow> (Inr (), emit (Log [''sendMessage'', ''inner error'']) w4))
                  = (Inr (), ?final)"
      by (simp add: sendTextMessage_def emit_def split: option.splits)
    have catch: "sendMessageCatch env cfg recipient roomId encryptedMessage (Rejected ''M_FORBIDDEN'') ?sent
                   = (Inr (), ?final)"
      by (simp add: sendMessageCatch_def errcode_def ev again f3(2) second)
    have res: "sendMessage ext env cfg message peer w = (Inr (), ?final)"
      using started
      by (simp add: sendMessage_def Let_def recipient [symmetric] encrypted [symmetric]
          resolved first catch detach_def)
    have "sends ?final = sends w3 @ [SendTextMessage newRoomId encryptedMessage]"
      by (simp add: sends_def isSend_def split: option.splits)
    with f3(1) have sn: "sends ?final = sends w @ [SendTextMessage roomId encryptedMessage,
                          SendTextMessage newRoomId encryptedMessage]" by simp
    from res sn p3 show ?thesis by simp
  qed
  have thrown: "snd (sendMessage ext env cfg message peer w) = emit (UnhandledRejection e) w3
               \<and> sends (snd (sendMessage ext env cfg message peer w))
                   = sends w @ [SendTextMessage roomId encryptedMessage]"
    if again: "getRelevantRoom env cfg recipient evicted = (Inl e, w3)" for e w3
    using sendMessage_forbidden_unresolved [OF recipient encrypted started resolved forbidden
        evicted again]
    by (metis snd_conv)
  from cache unbound returns retried thrown sendMessage_sends_bound show ?thesis by blast
qed

theorem sendMessage_forbidden_retry_witness:
  "client forbiddenWorld = Some ''https://matrix.papers.tech''
   \<and> distinct (map fst (peerRoomIds forbiddenWorld))
   \<and> fst (getRelevantRoom demoEnv (demoConfig []) ''@00:relay'' forbiddenWorld) = Inr ''!X''
   \<and> fst (sendMessage (tableExt []) demoEnv (demoConfig []) ''hello'' demoPeer forbiddenWorld) = Inr ()
   \<and> sends (snd (sendMessage (tableExt []) demoEnv (demoConfig []) ''hello'' demoPeer forbiddenWorld))
       = [SendTextMessage ''!X'' ''box(tx-aa,hello)'', SendTextMessage ''!Y'' ''box(tx-aa,hello)'']
   \<and> peerRoomIds (snd (sendMessage (tableExt []) demoEnv (demoConfig []) ''hello'' demoPeer forbiddenWorld))
       = [(''@third'', ''!Z''), (''@00:relay'', ''!Y'')]"
proof -
  let ?ext = "tableExt []"
  let ?cfg = "demoConfig []"
  let ?enc = "''box(tx-aa,hello)''"
  let ?w1 = "snd (getRelevantRoom demoEnv ?cfg ''@00:relay'' forbiddenWorld)"
  let ?evicted = "deleteRoomIdFromRooms ''!X''
                    (emit (Log [''sendMessage'', ''M_FORBIDDEN''])
                       (emit (SendTextMessage ''!X'' ?enc) ?w1))"
  let ?w3 = "snd (getRelevantRoom demoEnv ?cfg ''@00:relay'' ?evicted)"
  let ?res = "sendMessage ?ext demoEnv ?cfg ''hello'' demoPeer forbiddenWorld"
  have r: "''@00:relay'' = recipientOf ?ext demoPeer" by code_simp
  have e: "?enc = encryptCryptoboxPayload ?ext ''hello'' (sharedTx ?ext (p2p_publicKey demoPeer))"
    by code_simp
  have c: "client forbiddenWorld = Some ''https://matrix.papers.tech''" by code_simp
  have k: "distinct (map fst (peerRoomIds forbiddenWorld))" by code_simp
  have x: "fst (getRelevantRoom demoEnv ?cfg ''@00:relay'' forbiddenWorld) = Inr ''!X''" by code_simp
  then have g1: "getRelevantRoom demoEnv ?cfg ''@00:relay'' forbiddenWorld = (Inr ''!X'', ?w1)"
    by (simp add: prod_eq_iff)
  have f: "sendResult demoEnv (length (trace ?w1)) ''!X'' ?enc = Some ''M_FORBIDDEN''"
    by (simp add: demoEnv_def)
  have "fst (getRelevantRoom demoEnv ?cfg ''@00:relay'' ?evicted) = Inr ''!Y''" by code_simp
  then have g2: "getRelevantRoom demoEnv ?cfg ''@00:relay'' ?evicted = (Inr ''!Y'', ?w3)"
    by (simp add: prod_eq_iff)
  have s0: "sends forbiddenWorld = []" by code_simp
  have p1: "filter (\<lambda>entry. snd entry \<noteq> ''!X'') (peerRoomIds ?w1) = [(''@third'', ''!Z'')]"
    by code_simp
  note inst = sendMessage_forbidden_retry [OF r e c k g1 f refl]
  from inst have ok: "fst ?res = Inr ()" by blast
  from inst g2 have "sends (snd ?res)
      = sends forbiddenWorld @ [SendTextMessage ''!X'' ?enc, SendTextMessage ''!Y'' ?enc]"
    and "peerRoomIds (snd ?res)
      = filter (\<lambda>entry. snd entry \<noteq> ''!X'') (peerRoomIds ?w1) @ [(''@00:relay'', ''!Y'')]"
    by blast+
  with c k x s0 p1 ok show ?thesis by simp
qed

end
